theory Spec2Isabelle
  imports Complex_Main "HOL-Library.Sublist"
begin

section \<open>Data model (types.ts)\<close>

text \<open>
  The TypeScript interfaces of \<^verbatim>\<open>types.ts\<close> become records. A field of type
  \<^verbatim>\<open>number\<close> is a \<^typ>\<open>real\<close>, standing for the finite binary64 value
  it holds; the sums and quotients that the engines take of such fields round as
  binary64 does (section Binary64 arithmetic). NaN and the infinities are not values
  of a field. The point counter of the gamification engine only ever holds small
  integers, so it is an \<^typ>\<open>int\<close> and its arithmetic is exact.
  The fields \<^verbatim>\<open>id\<close> and \<^verbatim>\<open>date\<close>, which several interfaces share,
  carry a prefix naming their record; every other field keeps its name.

  The user-visible texts of the source are Chinese string literals. They are
  represented by the constructors of \<open>zh_text\<close>, one for each literal; the two
  template literals carry the text of the number they interpolate.
\<close>

datatype zh_text =
    T_NutritionImbalance          \<comment> \<open>App.tsx line 73, title\<close>
  | D_HealthyPlate                \<comment> \<open>App.tsx line 74, description\<close>
  | T_TooManySugaryDrinks         \<comment> \<open>App.tsx line 84\<close>
  | D_SugaryDrinks                \<comment> \<open>App.tsx line 85\<close>
  | T_InsufficientActivity        \<comment> \<open>App.tsx line 101\<close>
  | D_AverageSteps string         \<comment> \<open>App.tsx line 102, template around \<^verbatim>\<open>Math.round(avgSteps)\<close>\<close>
  | T_InsufficientModerate        \<comment> \<open>App.tsx line 111\<close>
  | D_ModerateExercise            \<comment> \<open>App.tsx line 112\<close>
  | T_ProlongedSitting            \<comment> \<open>App.tsx line 121\<close>
  | D_Sitting                     \<comment> \<open>App.tsx line 122\<close>
  | T_FrequentLateNights          \<comment> \<open>App.tsx line 142\<close>
  | D_LateNights                  \<comment> \<open>App.tsx line 143\<close>
  | T_InsufficientSleep           \<comment> \<open>App.tsx line 152\<close>
  | D_AverageSleep string         \<comment> \<open>App.tsx line 153, template around \<^verbatim>\<open>avgSleep.toFixed(1)\<close>\<close>
  | T_PhoneBeforeBed              \<comment> \<open>App.tsx line 162\<close>
  | D_PhoneBeforeBed              \<comment> \<open>App.tsx line 163\<close>
  | N_FirstStep | D_FirstStep     \<comment> \<open>gamificationLogic.ts lines 48, 49: badge name, description\<close>
  | N_StepMaster | D_StepMaster   \<comment> \<open>gamificationLogic.ts lines 56, 57\<close>
  | N_SleepStreak | D_SleepStreak \<comment> \<open>gamificationLogic.ts lines 64, 65\<close>
  | N_CleanEater | D_CleanEater   \<comment> \<open>gamificationLogic.ts lines 72, 73\<close>
  | T_WeeklySteps | D_WeeklySteps | U_Steps      \<comment> \<open>gamificationLogic.ts lines 107, 108, 111\<close>
  | T_ActiveWeek | D_ActiveWeek | U_Minutes      \<comment> \<open>gamificationLogic.ts lines 117, 118, 121\<close>
  | T_BalancedDiet | D_BalancedDiet | U_Meals    \<comment> \<open>gamificationLogic.ts lines 127, 128, 131\<close>

datatype category = Diet | Exercise | Sleep

datatype priority = High | Medium | Low

record DietData =
  diet_id :: string
  diet_date :: string
  calorieIntake :: real
  vegRatio :: real
  proteinRatio :: real
  starchRatio :: real
  sugaryDrinksCount :: real
  friedFoodCount :: real
  imageUrl :: "string option"

record ExerciseData =
  exercise_id :: string
  exercise_date :: string
  dailySteps :: real
  moderateExerciseMinutes :: real
  totalSittingMinutes :: real

record SleepData =
  sleep_id :: string
  sleep_date :: string
  bedTime :: string
  wakeTime :: string
  sleepDuration :: real
  usedPhoneBeforeBed :: bool

record AdviceItem =
  category :: category
  title :: zh_text
  description :: zh_text
  priority :: priority

section \<open>Binary64 arithmetic\<close>

text \<open>
  A JavaScript \<^verbatim>\<open>number\<close> is an IEEE 754 binary64 value, and \<^verbatim>\<open>+\<close> and
  \<^verbatim>\<open>/\<close> return the exact result rounded to the nearest binary64 value, a tie to
  the one with the even significand. A finite binary64 value is \<open>m * 2\<^sup>e\<close> with
  an integer \<open>m\<close> of magnitude below \<open>2\<^sup>5\<^sup>3\<close> and \<open>e\<close> not below -1074.
  \<open>exponent64\<close> finds the exponent that puts the significand of a non-negative
  real in [\<open>2\<^sup>5\<^sup>2\<close>, \<open>2\<^sup>5\<^sup>3\<close>), or -1074 for the subnormal range;
  \<open>round64\<close> rounds the significand there. Overflow to an infinity (magnitudes
  from \<open>2\<^sup>1\<^sup>0\<^sup>2\<^sup>4\<close> on) is outside the model.
\<close>

definition round_half_even :: "real \<Rightarrow> int" where
  "round_half_even x =
     (let f = \<lfloor>x\<rfloor>; d = x - of_int f
      in if d < 1 / 2 then f else if 1 / 2 < d then f + 1 else if even f then f else f + 1)"

definition pow2 :: "int \<Rightarrow> real" where
  "pow2 e = (if 0 \<le> e then 2 ^ nat e else 1 / 2 ^ nat (- e))"

function scale_up :: "real \<Rightarrow> int \<Rightarrow> int" where
  "scale_up x e = (if x < 2 ^ 53 then e else scale_up (x / 2) (e + 1))"
  by pat_completeness auto
termination
proof (relation "measure (\<lambda>(x, e). nat \<lfloor>x\<rfloor>)")
  show "wf (measure (\<lambda>(x::real, e::int). nat \<lfloor>x\<rfloor>))" by simp
next
  fix x :: real and e :: int
  assume "\<not> x < 2 ^ 53"
  then have x: "2 ^ 53 \<le> x" by simp
  have "\<lfloor>x / 2\<rfloor> \<le> \<lfloor>x\<rfloor> - 1"
  proof -
    have "x / 2 \<le> x - 1" using x by simp
    then have "\<lfloor>x / 2\<rfloor> \<le> \<lfloor>x - 1\<rfloor>" by (rule floor_mono)
    then show ?thesis by simp
  qed
  moreover have "1 \<le> \<lfloor>x\<rfloor>" using x by (simp add: le_floor_iff)
  ultimately show "((x / 2, e + 1), (x, e)) \<in> measure (\<lambda>(x, e). nat \<lfloor>x\<rfloor>)"
    by simp
qed

function scale_down :: "real \<Rightarrow> int \<Rightarrow> int" where
  "scale_down x e = (if 2 ^ 52 \<le> x \<or> e \<le> - 1074 then e else scale_down (x * 2) (e - 1))"
  by pat_completeness auto
termination
  by (relation "measure (\<lambda>(x, e). nat (e + 1074))") auto

declare scale_up.simps [simp del] scale_down.simps [simp del]

definition exponent64 :: "real \<Rightarrow> int" where
  "exponent64 x = (if 2 ^ 53 \<le> x then scale_up x 0 else scale_down x 0)"

definition round64 :: "real \<Rightarrow> real" where
  "round64 x =
     (let a = \<bar>x\<bar>; e = exponent64 a;
          r = of_int (round_half_even (a / pow2 e)) * pow2 e
      in if x < 0 then - r else r)"

text \<open>
  The operators \<^verbatim>\<open>+\<close> and \<^verbatim>\<open>/\<close> on numbers, and the value of a decimal literal
  of the source such as \<^verbatim>\<open>0.57\<close>. Literals that binary64 holds exactly (0.5, 0.25,
  7.5, the integers) are written as they are.
\<close>

definition add64 :: "real \<Rightarrow> real \<Rightarrow> real" where
  "add64 x y = round64 (x + y)"

definition div64 :: "real \<Rightarrow> real \<Rightarrow> real" where
  "div64 x y = round64 (x / y)"

definition literal64 :: "real \<Rightarrow> real" where
  "literal64 q = round64 q"

section \<open>Rule engine (App.tsx)\<close>

subsection \<open>analyzeDiet\<close>

text \<open>
  \<^verbatim>\<open>reduce((sum, d) => sum + f(d), 0)\<close> is a left fold from 0 with the binary64
  sum; \<^verbatim>\<open>weeklyData.length\<close> is an integer below \<open>2\<^sup>3\<^sup>2\<close>, exact as a number. The array
  \<^verbatim>\<open>advice\<close> only grows by \<^verbatim>\<open>push\<close>, so each rule appends at most one
  item to the value the previous rule left.
\<close>

definition analyzeDiet :: "DietData list \<Rightarrow> AdviceItem list" where
  "analyzeDiet weeklyData =
     (let advice = [] in
      if length weeklyData = 0 then advice
      else
        let avgVeg = div64 (foldl (\<lambda>sum d. add64 sum (vegRatio d)) 0 weeklyData) (real (length weeklyData));
            avgProtein = div64 (foldl (\<lambda>sum d. add64 sum (proteinRatio d)) 0 weeklyData) (real (length weeklyData));
            advice =
              (if avgVeg < 0.5 \<or> avgProtein < 0.25
               then advice @ [\<lparr>category = Diet, title = T_NutritionImbalance,
                               description = D_HealthyPlate, priority = High\<rparr>]
               else advice);
            totalSugary = foldl (\<lambda>sum d. add64 sum (sugaryDrinksCount d)) 0 weeklyData;
            avgSugary = div64 totalSugary (real (length weeklyData));
            advice =
              (if avgSugary > literal64 0.57
               then advice @ [\<lparr>category = Diet, title = T_TooManySugaryDrinks,
                               description = D_SugaryDrinks, priority = Medium\<rparr>]
               else advice)
        in advice)"

subsection \<open>analyzeExercise\<close>

text \<open>
  \<^verbatim>\<open>Math.round\<close> rounds to the nearest integer, a tie towards plus infinity.
  The template literal then prints the integer in decimal (the exponent notation
  that JavaScript uses from \<open>10\<^sup>2\<^sup>1\<close> on is not modelled).
\<close>

definition Math_round :: "real \<Rightarrow> int" where
  "Math_round x = \<lfloor>x + 1 / 2\<rfloor>"

definition digit_char :: "nat \<Rightarrow> char" where
  "digit_char n = ''0123456789'' ! (n mod 10)"

fun show_nat :: "nat \<Rightarrow> string" where
  "show_nat n = (if n < 10 then [digit_char n] else show_nat (n div 10) @ [digit_char (n mod 10)])"

declare show_nat.simps [simp del]

definition show_int :: "int \<Rightarrow> string" where
  "show_int i = (if i < 0 then CHR ''-'' # show_nat (nat (- i)) else show_nat (nat i))"

definition analyzeExercise :: "ExerciseData list \<Rightarrow> AdviceItem list" where
  "analyzeExercise weeklyData =
     (let advice = [] in
      if length weeklyData = 0 then advice
      else
        let avgSteps = div64 (foldl (\<lambda>sum d. add64 sum (dailySteps d)) 0 weeklyData) (real (length weeklyData));
            advice =
              (if avgSteps < 8000
               then advice @ [\<lparr>category = Exercise, title = T_InsufficientActivity,
                               description = D_AverageSteps (show_int (Math_round avgSteps)),
                               priority = Medium\<rparr>]
               else advice);
            totalModMin = foldl (\<lambda>sum d. add64 sum (moderateExerciseMinutes d)) 0 weeklyData;
            advice =
              (if totalModMin < 180
               then advice @ [\<lparr>category = Exercise, title = T_InsufficientModerate,
                               description = D_ModerateExercise, priority = High\<rparr>]
               else advice);
            avgSitting = div64 (foldl (\<lambda>sum d. add64 sum (totalSittingMinutes d)) 0 weeklyData) (real (length weeklyData));
            advice =
              (if avgSitting > 480
               then advice @ [\<lparr>category = Exercise, title = T_ProlongedSitting,
                               description = D_Sitting, priority = Low\<rparr>]
               else advice)
        in advice)"

subsection \<open>Strings to numbers: split, Number and parseInt\<close>

text \<open>
  \<^verbatim>\<open>analyzeSleep\<close> reads the hour of \<^verbatim>\<open>bedTime\<close> with \<^verbatim>\<open>Number\<close> and the
  minute with \<^verbatim>\<open>parseInt\<close>. Both are modelled after ECMA-262 (StringToNumber and
  parseInt with no radix) on strings of code units below 256; their results are exact
  reals where JavaScript rounds to binary64, so a literal with more digits than a
  binary64 holds, or an exponent beyond its range, is outside the model.
  \<open>NaN\<close> and the infinities are values of their own, since comparisons treat them
  specially.
\<close>

datatype jsnum = NaN | PosInfinity | NegInfinity | Finite real

fun num_ge :: "jsnum \<Rightarrow> real \<Rightarrow> bool" where
  "num_ge (Finite x) c = (x \<ge> c)"
| "num_ge PosInfinity c = True"
| "num_ge NegInfinity c = False"
| "num_ge NaN c = False"

fun num_lt :: "jsnum \<Rightarrow> real \<Rightarrow> bool" where
  "num_lt (Finite x) c = (x < c)"
| "num_lt PosInfinity c = False"
| "num_lt NegInfinity c = True"
| "num_lt NaN c = False"

fun num_gt :: "jsnum \<Rightarrow> real \<Rightarrow> bool" where
  "num_gt (Finite x) c = (x > c)"
| "num_gt PosInfinity c = True"
| "num_gt NegInfinity c = False"
| "num_gt NaN c = False"

fun num_eq :: "jsnum \<Rightarrow> real \<Rightarrow> bool" where
  "num_eq (Finite x) c = (x = c)"
| "num_eq PosInfinity c = False"
| "num_eq NegInfinity c = False"
| "num_eq NaN c = False"

fun num_neg :: "jsnum \<Rightarrow> jsnum" where
  "num_neg (Finite x) = Finite (- x)"
| "num_neg PosInfinity = NegInfinity"
| "num_neg NegInfinity = PosInfinity"
| "num_neg NaN = NaN"

text \<open>\<^verbatim>\<open>s.split(':')\<close>: the pieces between the colons; never the empty array.\<close>

fun split_colon :: "string \<Rightarrow> string list" where
  "split_colon [] = [[]]"
| "split_colon (c # cs) =
     (if c = CHR '':'' then [] # split_colon cs
      else (case split_colon cs of p # ps \<Rightarrow> (c # p) # ps | [] \<Rightarrow> [[c]]))"

definition isStrWhiteSpaceChar :: "char \<Rightarrow> bool" where
  "isStrWhiteSpaceChar c =
     (c \<in> set [CHR 0x09, CHR 0x0A, CHR 0x0B, CHR 0x0C, CHR 0x0D, CHR 0x20, CHR 0xA0])"

definition trim :: "string \<Rightarrow> string" where
  "trim s = rev (dropWhile isStrWhiteSpaceChar (rev (dropWhile isStrWhiteSpaceChar s)))"

definition digitValue :: "char \<Rightarrow> nat option" where
  "digitValue = map_of
     [(CHR ''0'', 0), (CHR ''1'', 1), (CHR ''2'', 2), (CHR ''3'', 3), (CHR ''4'', 4),
      (CHR ''5'', 5), (CHR ''6'', 6), (CHR ''7'', 7), (CHR ''8'', 8), (CHR ''9'', 9),
      (CHR ''a'', 10), (CHR ''b'', 11), (CHR ''c'', 12), (CHR ''d'', 13), (CHR ''e'', 14),
      (CHR ''f'', 15), (CHR ''A'', 10), (CHR ''B'', 11), (CHR ''C'', 12), (CHR ''D'', 13),
      (CHR ''E'', 14), (CHR ''F'', 15)]"

definition isDigitOf :: "nat \<Rightarrow> char \<Rightarrow> bool" where
  "isDigitOf radix c = (case digitValue c of None \<Rightarrow> False | Some v \<Rightarrow> v < radix)"

definition digitsValue :: "nat \<Rightarrow> string \<Rightarrow> nat" where
  "digitsValue radix cs =
     foldl (\<lambda>acc c. acc * radix + (case digitValue c of None \<Rightarrow> 0 | Some v \<Rightarrow> v)) 0 cs"

definition allDigitsOf :: "nat \<Rightarrow> string \<Rightarrow> bool" where
  "allDigitsOf radix cs = (cs \<noteq> [] \<and> list_all (isDigitOf radix) cs)"

text \<open>The text after \<^verbatim>\<open>e\<close> or \<^verbatim>\<open>E\<close>: an optional sign and decimal digits.\<close>

definition exponentPart :: "string \<Rightarrow> int option" where
  "exponentPart s =
     (let neg = (case s of c # _ \<Rightarrow> c = CHR ''-'' | [] \<Rightarrow> False);
          ds = (case s of c # r \<Rightarrow> if c = CHR ''-'' \<or> c = CHR ''+'' then r else s | [] \<Rightarrow> s)
      in if allDigitsOf 10 ds
         then Some (if neg then - int (digitsValue 10 ds) else int (digitsValue 10 ds))
         else None)"

definition scale10 :: "real \<Rightarrow> int \<Rightarrow> real" where
  "scale10 x e = (if e \<ge> 0 then x * 10 ^ nat e else x / 10 ^ nat (- e))"

text \<open>
  StrUnsignedDecimalLiteral: \<^verbatim>\<open>Infinity\<close>, or digits with an optional fraction and an
  optional exponent, at least one digit before or after the point.
\<close>

definition unsignedDecimal :: "string \<Rightarrow> jsnum" where
  "unsignedDecimal s =
     (if s = ''Infinity'' then PosInfinity
      else
        let ip = takeWhile (isDigitOf 10) s;
            r1 = dropWhile (isDigitOf 10) s;
            dot = (case r1 of c # _ \<Rightarrow> c = CHR ''.'' | [] \<Rightarrow> False);
            fp = (if dot then takeWhile (isDigitOf 10) (tl r1) else []);
            r2 = (if dot then dropWhile (isDigitOf 10) (tl r1) else r1);
            mant = real (digitsValue 10 ip) + real (digitsValue 10 fp) / 10 ^ length fp
        in if ip = [] \<and> fp = [] then NaN
           else (case r2 of
                   [] \<Rightarrow> Finite mant
                 | c # r \<Rightarrow>
                     if c = CHR ''e'' \<or> c = CHR ''E''
                     then (case exponentPart r of None \<Rightarrow> NaN | Some e \<Rightarrow> Finite (scale10 mant e))
                     else NaN))"

text \<open>NonDecimalIntegerLiteral: \<^verbatim>\<open>0x\<close>, \<^verbatim>\<open>0o\<close> or \<^verbatim>\<open>0b\<close> and digits of that radix, no sign.\<close>

definition nonDecimal :: "string \<Rightarrow> nat option" where
  "nonDecimal s =
     (case s of
        z # x # ds \<Rightarrow>
          if z \<noteq> CHR ''0'' then None
          else if (x = CHR ''x'' \<or> x = CHR ''X'') \<and> allDigitsOf 16 ds then Some (digitsValue 16 ds)
          else if (x = CHR ''o'' \<or> x = CHR ''O'') \<and> allDigitsOf 8 ds then Some (digitsValue 8 ds)
          else if (x = CHR ''b'' \<or> x = CHR ''B'') \<and> allDigitsOf 2 ds then Some (digitsValue 2 ds)
          else None
      | _ \<Rightarrow> None)"

definition Number_of_string :: "string \<Rightarrow> jsnum" where
  "Number_of_string s =
     (let t = trim s in
      if t = [] then Finite 0
      else (case nonDecimal t of
              Some v \<Rightarrow> Finite (real v)
            | None \<Rightarrow>
                (case t of
                   c # r \<Rightarrow>
                     if c = CHR ''-'' then num_neg (unsignedDecimal r)
                     else if c = CHR ''+'' then unsignedDecimal r
                     else unsignedDecimal t
                 | [] \<Rightarrow> Finite 0)))"

text \<open>
  \<^verbatim>\<open>parseInt(string)\<close> with no radix: leading white space, a sign, \<^verbatim>\<open>0x\<close> for radix
  16, then the longest run of digits; \<open>NaN\<close> when that run is empty. An argument
  \<^verbatim>\<open>undefined\<close> is first turned into the string \<^verbatim>\<open>undefined\<close>.
\<close>

definition parseInt :: "string option \<Rightarrow> jsnum" where
  "parseInt arg =
     (let inputString = (case arg of None \<Rightarrow> ''undefined'' | Some s \<Rightarrow> s);
          S = dropWhile isStrWhiteSpaceChar inputString;
          neg = (case S of c # _ \<Rightarrow> c = CHR ''-'' | [] \<Rightarrow> False);
          S = (case S of c # r \<Rightarrow> if c = CHR ''+'' \<or> c = CHR ''-'' then r else S | [] \<Rightarrow> S);
          hex = (case S of a # b # _ \<Rightarrow> a = CHR ''0'' \<and> (b = CHR ''x'' \<or> b = CHR ''X'') | _ \<Rightarrow> False);
          R = (if hex then 16 else 10);
          S = (if hex then drop 2 S else S);
          Z = takeWhile (isDigitOf R) S
      in if Z = [] then NaN
         else Finite (if neg then - real (digitsValue R Z) else real (digitsValue R Z)))"

subsection \<open>analyzeSleep\<close>

text \<open>
  The callback of \<^verbatim>\<open>weeklyData.filter\<close> (App.tsx lines 134 to 137).
  \<^verbatim>\<open>const [hour] = parts.map(Number)\<close> takes the first piece;
  \<^verbatim>\<open>parts[1]\<close> is \<^verbatim>\<open>undefined\<close> when the string has no colon.
\<close>

definition isLateNight :: "SleepData \<Rightarrow> bool" where
  "isLateNight d =
     (let hour = (case split_colon (bedTime d) of h # _ \<Rightarrow> Number_of_string h | [] \<Rightarrow> NaN);
          second = (case split_colon (bedTime d) of _ # m # _ \<Rightarrow> Some m | _ \<Rightarrow> None)
      in (num_ge hour 0 \<and> num_lt hour 5) \<or> (num_eq hour 23 \<and> num_gt (parseInt second) 30))"

text \<open>
  \<^verbatim>\<open>x.toFixed(1)\<close>: the sign, then the integer \<open>n\<close> nearest to ten times the
  magnitude (a tie gives the larger), printed with one digit after the point and at
  least one before (magnitudes below \<open>10\<^sup>2\<^sup>1\<close>).
\<close>

definition toFixed1 :: "real \<Rightarrow> string" where
  "toFixed1 x =
     (let s = (if x < 0 then ''-'' else []);
          n = nat \<lfloor>\<bar>x\<bar> * 10 + 1 / 2\<rfloor>;
          m = show_nat n;
          m = (if length m \<le> 1 then ''0'' @ m else m)
      in s @ butlast m @ ''.'' @ [last m])"

definition analyzeSleep :: "SleepData list \<Rightarrow> AdviceItem list" where
  "analyzeSleep weeklyData =
     (let advice = [] in
      if length weeklyData = 0 then advice
      else
        let lateNights = length (filter isLateNight weeklyData);
            advice =
              (if lateNights > 2
               then advice @ [\<lparr>category = Sleep, title = T_FrequentLateNights,
                               description = D_LateNights, priority = High\<rparr>]
               else advice);
            avgSleep = div64 (foldl (\<lambda>sum d. add64 sum (sleepDuration d)) 0 weeklyData) (real (length weeklyData));
            advice =
              (if avgSleep < 7.5
               then advice @ [\<lparr>category = Sleep, title = T_InsufficientSleep,
                               description = D_AverageSleep (toFixed1 avgSleep),
                               priority = High\<rparr>]
               else advice);
            phoneDays = length (filter usedPhoneBeforeBed weeklyData);
            advice =
              (if phoneDays > 3
               then advice @ [\<lparr>category = Sleep, title = T_PhoneBeforeBed,
                               description = D_PhoneBeforeBed, priority = Medium\<rparr>]
               else advice)
        in advice)"

section \<open>Gamification engine (services/gamificationLogic.ts)\<close>

record Badge =
  badge_id :: string
  badge_name :: zh_text
  badge_description :: zh_text
  icon :: string
  color :: string
  isUnlocked :: bool
  unlockedDate :: "string option"

record Challenge =
  challenge_id :: string
  challenge_title :: zh_text
  challenge_description :: zh_text
  target :: real
  current :: real
  unit :: zh_text
  isCompleted :: bool
  challenge_type :: category

record GamificationState =
  totalPoints :: int
  level :: int
  progressToNextLevel :: int
  badges :: "Badge list"
  challenges :: "Challenge list"

subsection \<open>Points\<close>

text \<open>
  Each \<^verbatim>\<open>forEach\<close> callback adds to the variable \<^verbatim>\<open>points\<close>; it becomes a
  function from the counter before the entry to the counter after it, and the
  \<^verbatim>\<open>forEach\<close> a left fold.
\<close>

definition dietPoints :: "int \<Rightarrow> DietData \<Rightarrow> int" where
  "dietPoints points d =
     (let points = (if vegRatio d \<ge> literal64 0.3 \<and> proteinRatio d \<ge> literal64 0.2
                    then points + 20 else points);
          points = (if sugaryDrinksCount d = 0 then points + 10 else points);
          points = (if friedFoodCount d = 0 then points + 10 else points)
      in points)"

definition exercisePoints :: "int \<Rightarrow> ExerciseData \<Rightarrow> int" where
  "exercisePoints points e =
     (let points = (if dailySteps e \<ge> 8000 then points + 15 else points);
          points = (if dailySteps e \<ge> 12000 then points + 10 else points);
          points = (if moderateExerciseMinutes e \<ge> 30 then points + 20 else points)
      in points)"

definition sleepPoints :: "int \<Rightarrow> SleepData \<Rightarrow> int" where
  "sleepPoints points s =
     (let points = (if sleepDuration s \<ge> 7.0 \<and> sleepDuration s \<le> 9.0 then points + 20 else points);
          points = (if \<not> usedPhoneBeforeBed s then points + 15 else points)
      in points)"

text \<open>The operator \<^verbatim>\<open>%\<close> on integers: the remainder takes the sign of the dividend.\<close>

definition js_rem :: "int \<Rightarrow> int \<Rightarrow> int" where
  "js_rem a b = sgn a * (\<bar>a\<bar> mod \<bar>b\<bar>)"

subsection \<open>Sorting the sleep entries by date\<close>

text \<open>
  \<^verbatim>\<open>new Date(s).getTime()\<close> for a date-only ISO string \<^verbatim>\<open>YYYY-MM-DD\<close>, the format
  \<^verbatim>\<open>types.ts\<close> gives for the field: the milliseconds from the epoch to that day's
  midnight UTC, with the day number of ECMA-262 (DayFromYear). For every other string
  the model answers \<open>None\<close>, standing for NaN; JavaScript accepts further formats,
  some of them implementation-defined, which are outside the model.
\<close>

definition isLeapYear :: "int \<Rightarrow> bool" where
  "isLeapYear y = (if y mod 400 = 0 then True else if y mod 100 = 0 then False else y mod 4 = 0)"

definition daysInMonth :: "int \<Rightarrow> int \<Rightarrow> int" where
  "daysInMonth y m =
     (if m = 2 then (if isLeapYear y then 29 else 28)
      else if m = 4 \<or> m = 6 \<or> m = 9 \<or> m = 11 then 30 else 31)"

definition dayFromYear :: "int \<Rightarrow> int" where
  "dayFromYear y = 365 * (y - 1970) + (y - 1969) div 4 - (y - 1901) div 100 + (y - 1601) div 400"

definition dayOfDate :: "int \<Rightarrow> int \<Rightarrow> int \<Rightarrow> int" where
  "dayOfDate y m d = dayFromYear y + sum_list (map (daysInMonth y) [1..m - 1]) + (d - 1)"

definition getTime :: "string \<Rightarrow> int option" where
  "getTime s =
     (if length s = 10 \<and> s ! 4 = CHR ''-'' \<and> s ! 7 = CHR ''-''
         \<and> allDigitsOf 10 (take 4 s) \<and> allDigitsOf 10 (take 2 (drop 5 s))
         \<and> allDigitsOf 10 (drop 8 s)
      then
        let y = int (digitsValue 10 (take 4 s));
            m = int (digitsValue 10 (take 2 (drop 5 s)));
            d = int (digitsValue 10 (drop 8 s))
        in if 1 \<le> m \<and> m \<le> 12 \<and> 1 \<le> d \<and> d \<le> daysInMonth y m
           then Some (86400000 * dayOfDate y m d)
           else None
      else None)"

text \<open>
  The comparator \<^verbatim>\<open>(a, b) => new Date(a.date).getTime() - new Date(b.date).getTime()\<close>;
  \<open>None\<close> is NaN, which the sort reads as 0.

  \<^verbatim>\<open>Array.prototype.sort\<close> is stable, so for a consistent comparator its result is
  the one of the stable insertion sort below. When some date does not parse the
  comparator is not consistent and JavaScript leaves the order to the implementation;
  the model then still answers with the insertion sort.
\<close>

definition compareByDate :: "SleepData \<Rightarrow> SleepData \<Rightarrow> int option" where
  "compareByDate a b =
     (case (getTime (sleep_date a), getTime (sleep_date b)) of
        (Some x, Some y) \<Rightarrow> Some (x - y)
      | _ \<Rightarrow> None)"

definition SortCompare :: "('a \<Rightarrow> 'a \<Rightarrow> int option) \<Rightarrow> 'a \<Rightarrow> 'a \<Rightarrow> int" where
  "SortCompare comparefn x y = (case comparefn x y of None \<Rightarrow> 0 | Some v \<Rightarrow> v)"

fun insertSorted :: "('a \<Rightarrow> 'a \<Rightarrow> int option) \<Rightarrow> 'a \<Rightarrow> 'a list \<Rightarrow> 'a list" where
  "insertSorted comparefn x [] = [x]"
| "insertSorted comparefn x (y # ys) =
     (if SortCompare comparefn x y \<le> 0 then x # y # ys
      else y # insertSorted comparefn x ys)"

definition sort_array :: "('a \<Rightarrow> 'a \<Rightarrow> int option) \<Rightarrow> 'a list \<Rightarrow> 'a list" where
  "sort_array comparefn xs = foldr (insertSorted comparefn) xs []"

definition sortedSleeps :: "SleepData list \<Rightarrow> SleepData list" where
  "sortedSleeps sleeps = sort_array compareByDate sleeps"

subsection \<open>The sleep streak\<close>

text \<open>
  The loop over \<^verbatim>\<open>sortedSleeps\<close> with its two counters
  (\<^verbatim>\<open>sleepStreak\<close>, \<^verbatim>\<open>maxSleepStreak\<close>).
\<close>

definition streakStep :: "nat \<times> nat \<Rightarrow> SleepData \<Rightarrow> nat \<times> nat" where
  "streakStep st s =
     (case st of (sleepStreak, maxSleepStreak) \<Rightarrow>
        if sleepDuration s \<ge> 7
        then (sleepStreak + 1, max maxSleepStreak (sleepStreak + 1))
        else (0, maxSleepStreak))"

definition maxSleepStreak :: "SleepData list \<Rightarrow> nat" where
  "maxSleepStreak sleeps = snd (foldl streakStep (0, 0) (sortedSleeps sleeps))"

text \<open>
  \<^verbatim>\<open>badges.find(b => b.id === i)\<close> followed by \<^verbatim>\<open>badge.isUnlocked = true\<close>
  when a badge was found: the first badge with that id is updated in place.
\<close>

fun unlockBadge :: "string \<Rightarrow> Badge list \<Rightarrow> Badge list" where
  "unlockBadge i [] = []"
| "unlockBadge i (b # bs) =
     (if badge_id b = i then b\<lparr>isUnlocked := True\<rparr> # bs else b # unlockBadge i bs)"

subsection \<open>calculateGamificationState\<close>

text \<open>
  The counter \<^verbatim>\<open>points\<close> is an integer, a multiple of 5 as every reward is;
  its quotient by 200 and the scaling of the remainder to a percentage are taken
  exactly before \<^verbatim>\<open>Math.floor\<close>. The totals of the challenges are sums of
  number fields and round as binary64 does.
\<close>

definition calculateGamificationState ::
    "DietData list \<Rightarrow> ExerciseData list \<Rightarrow> SleepData list \<Rightarrow> GamificationState" where
  "calculateGamificationState diets exercises sleeps =
     (let points = 0;
          points = foldl dietPoints points diets;
          points = foldl exercisePoints points exercises;
          points = foldl sleepPoints points sleeps;
          pointsPerLevel = 200;
          level = \<lfloor>real_of_int points / real_of_int pointsPerLevel\<rfloor> + 1;
          progressToNextLevel =
            \<lfloor>real_of_int (js_rem points pointsPerLevel) / real_of_int pointsPerLevel * 100\<rfloor>;
          badges =
            [\<lparr>badge_id = ''first_step'', badge_name = N_FirstStep, badge_description = D_FirstStep,
              icon = ''fa-person-walking'', color = ''text-blue-400'',
              isUnlocked = (length exercises > 0), unlockedDate = None\<rparr>,
             \<lparr>badge_id = ''step_master'', badge_name = N_StepMaster, badge_description = D_StepMaster,
              icon = ''fa-fire'', color = ''text-red-500'',
              isUnlocked = list_ex (\<lambda>e. dailySteps e \<ge> 10000) exercises, unlockedDate = None\<rparr>,
             \<lparr>badge_id = ''sleep_streak'', badge_name = N_SleepStreak, badge_description = D_SleepStreak,
              icon = ''fa-moon'', color = ''text-purple-400'',
              isUnlocked = False, unlockedDate = None\<rparr>,
             \<lparr>badge_id = ''clean_eater'', badge_name = N_CleanEater, badge_description = D_CleanEater,
              icon = ''fa-leaf'', color = ''text-green-500'',
              isUnlocked = (length (filter (\<lambda>d. sugaryDrinksCount d = 0) diets) \<ge> 3),
              unlockedDate = None\<rparr>];
          badges = (if maxSleepStreak sleeps \<ge> 3 then unlockBadge ''sleep_streak'' badges else badges);
          totalSteps = foldl (\<lambda>acc curr. add64 acc (dailySteps curr)) 0 exercises;
          totalModMins = foldl (\<lambda>acc curr. add64 acc (moderateExerciseMinutes curr)) 0 exercises;
          balancedMeals =
            real (length (filter (\<lambda>d. vegRatio d \<ge> literal64 0.3 \<and> proteinRatio d \<ge> literal64 0.2) diets));
          challenges =
            [\<lparr>challenge_id = ''weekly_steps'', challenge_title = T_WeeklySteps,
              challenge_description = D_WeeklySteps, target = 50000, current = totalSteps,
              unit = U_Steps, isCompleted = (totalSteps \<ge> 50000), challenge_type = Exercise\<rparr>,
             \<lparr>challenge_id = ''active_week'', challenge_title = T_ActiveWeek,
              challenge_description = D_ActiveWeek, target = 150, current = totalModMins,
              unit = U_Minutes, isCompleted = (totalModMins \<ge> 150), challenge_type = Exercise\<rparr>,
             \<lparr>challenge_id = ''balanced_diet'', challenge_title = T_BalancedDiet,
              challenge_description = D_BalancedDiet, target = 5, current = balancedMeals,
              unit = U_Meals, isCompleted = (balancedMeals \<ge> 5), challenge_type = Diet\<rparr>]
      in \<lparr>totalPoints = points, level = level, progressToNextLevel = progressToNextLevel,
          badges = badges, challenges = challenges\<rparr>)"

section \<open>Specification-side notions\<close>

text \<open>The arithmetic mean of a field over a sequence, as the specification words it.\<close>

definition average :: "('a \<Rightarrow> real) \<Rightarrow> 'a list \<Rightarrow> real" where
  "average f xs = sum_list (map f xs) / real (length xs)"

text \<open>
  The mean as the code computes it: the binary64 sum of the values from left to right,
  starting from 0, then the binary64 quotient by the length.
\<close>

definition sum64 :: "real list \<Rightarrow> real" where
  "sum64 xs = foldl add64 0 xs"

definition average64 :: "('a \<Rightarrow> real) \<Rightarrow> 'a list \<Rightarrow> real" where
  "average64 f xs = div64 (sum64 (map f xs)) (real (length xs))"


text \<open>The items that the nutrition rule, the sugary-drink rule and the late-night rule push.\<close>

definition nutritionAdvice :: AdviceItem where
  "nutritionAdvice = \<lparr>category = Diet, title = T_NutritionImbalance,
                       description = D_HealthyPlate, priority = High\<rparr>"



definition lateNightAdvice :: AdviceItem where
  "lateNightAdvice = \<lparr>category = Sleep, title = T_FrequentLateNights,
                       description = D_LateNights, priority = High\<rparr>"

text \<open>The content of the variable \<^verbatim>\<open>points\<close> after the three \<^verbatim>\<open>forEach\<close> loops.\<close>

definition points_of :: "DietData list \<Rightarrow> ExerciseData list \<Rightarrow> SleepData list \<Rightarrow> int" where
  "points_of ds es ss = foldl sleepPoints (foldl exercisePoints (foldl dietPoints 0 ds) es) ss"

text \<open>A time of day written \<^verbatim>\<open>HH:mm\<close>, two digits each.\<close>

definition hhmm :: "nat \<Rightarrow> nat \<Rightarrow> string" where
  "hhmm h m = [digit_char (h div 10), digit_char (h mod 10), CHR '':'',
               digit_char (m div 10), digit_char (m mod 10)]"

text \<open>
  The specification's late night, on the hour and minute of a bedtime: the hour in
  [0, 5), or the hour 23 with the minute above 30.
\<close>

definition lateTime :: "nat \<times> nat \<Rightarrow> bool" where
  "lateTime t = (case t of (h, m) \<Rightarrow> h < 5 \<or> (h = 23 \<and> m > 30))"

text \<open>Whether the badge with the given id is in the state and unlocked.\<close>

definition badgeUnlocked :: "string \<Rightarrow> GamificationState \<Rightarrow> bool" where
  "badgeUnlocked i g = list_ex (\<lambda>b. badge_id b = i \<and> isUnlocked b) (badges g)"

text \<open>
  A run of at least \<open>k\<close> consecutive elements satisfying \<open>P\<close>, starting at
  some position of the list.
\<close>

fun hasRun :: "nat \<Rightarrow> ('a \<Rightarrow> bool) \<Rightarrow> 'a list \<Rightarrow> bool" where
  "hasRun k P [] = (k = 0)"
| "hasRun k P (x # xs) = (k \<le> length (takeWhile P (x # xs)) \<or> hasRun k P xs)"

text \<open>The test of the streak loop on one entry.\<close>

definition sevenHours :: "SleepData \<Rightarrow> bool" where
  "sevenHours s = (sleepDuration s \<ge> 7)"

section \<open>Sample inputs\<close>

text \<open>
  Concrete entries on which the theorems below are instantiated: a balanced meal with and
  without a sugary drink, a day of 12000 steps, and a week of sleep with calendar gaps,
  in date order and shuffled.
\<close>

definition diet0 :: DietData where
  "diet0 = \<lparr>diet_id = ''d0'', diet_date = ''2024-01-01'', calorieIntake = 600, vegRatio = 0.5,
            proteinRatio = 0.25, starchRatio = 0.25, sugaryDrinksCount = 0, friedFoodCount = 0,
            imageUrl = None\<rparr>"

definition diet1 :: DietData where
  "diet1 = diet0\<lparr>sugaryDrinksCount := 1\<rparr>"

definition exercise12000 :: ExerciseData where
  "exercise12000 = \<lparr>exercise_id = ''e1'', exercise_date = ''2024-01-01'', dailySteps = 12000,
                     moderateExerciseMinutes = 0, totalSittingMinutes = 300\<rparr>"

definition sleepAt :: "string \<Rightarrow> string \<Rightarrow> real \<Rightarrow> SleepData" where
  "sleepAt d t h = \<lparr>sleep_id = d, sleep_date = d, bedTime = t, wakeTime = ''07:00'',
                    sleepDuration = h, usedPhoneBeforeBed = False\<rparr>"

definition sleepWeek :: "SleepData list" where
  "sleepWeek =
     [sleepAt ''2024-01-01'' ''23:00'' 6, sleepAt ''2024-01-03'' ''23:00'' 6,
      sleepAt ''2024-01-04'' ''23:00'' 6, sleepAt ''2024-01-08'' ''23:00'' 8,
      sleepAt ''2024-01-10'' ''23:00'' 8, sleepAt ''2024-01-20'' ''23:00'' 8,
      sleepAt ''2024-02-01'' ''23:00'' 8]"

definition sleepShuffled :: "SleepData list" where
  "sleepShuffled =
     [sleepAt ''2024-01-10'' ''23:00'' 8, sleepAt ''2024-01-03'' ''23:00'' 6,
      sleepAt ''2024-02-01'' ''23:00'' 8, sleepAt ''2024-01-01'' ''23:00'' 6,
      sleepAt ''2024-01-08'' ''23:00'' 8, sleepAt ''2024-01-04'' ''23:00'' 6,
      sleepAt ''2024-01-20'' ''23:00'' 8]"

text \<open>
  Four meals whose vegRatio values, the binary64 values of 0.2, 0.7, 0.9 and 0.2, have the
  exact mean 1/2, and five entries whose sugaryDrinksCount values have an exact mean
  just below the binary64 value of 0.57.
\<close>

definition meal :: "real \<Rightarrow> real \<Rightarrow> real \<Rightarrow> DietData" where
  "meal v p c = \<lparr>diet_id = ''m'', diet_date = ''2024-01-01'', calorieIntake = 600, vegRatio = v,
                 proteinRatio = p, starchRatio = 0.25, sugaryDrinksCount = c, friedFoodCount = 0,
                 imageUrl = None\<rparr>"

definition mealsHalfVeg :: "DietData list" where
  "mealsHalfVeg =
     [meal (literal64 0.2) (literal64 0.3) 0, meal (literal64 0.7) (literal64 0.3) 0,
      meal (literal64 0.9) (literal64 0.3) 0, meal (literal64 0.2) (literal64 0.3) 0]"



section \<open>Auxiliary facts\<close>

subsection \<open>Binary64 rounding\<close>

lemma pow2_powi: "pow2 e = 2 powi e"
  by (simp add: pow2_def power_int_def power_one_over inverse_eq_divide)

lemma pow2_pos: "0 < pow2 e"
  by (simp add: pow2_def)

lemma pow2_add: "pow2 (a + b) = pow2 a * pow2 b"
  by (simp add: pow2_powi power_int_add)

lemma pow2_0: "pow2 0 = 1"
  by (simp add: pow2_def)

lemma pow2_1: "pow2 1 = 2"
  by (simp add: pow2_def)

lemma pow2_minus: "pow2 (- e) = 1 / pow2 e"
  by (simp add: pow2_powi power_int_minus inverse_eq_divide)

lemma pow2_mono: "a \<le> b \<Longrightarrow> pow2 a \<le> pow2 b"
  by (simp add: pow2_powi power_int_increasing)

lemma pow2_succ: "pow2 (e + 1) = 2 * pow2 e"
  using pow2_add [of e 1] by (simp add: pow2_1)

lemma pow2_diff_succ: "pow2 (r - e) = 2 * pow2 (r - (e + 1))"
  using pow2_succ [of "r - (e + 1)"] by simp

lemma scale_up_spec:
  "e \<le> scale_up x e \<and> x < 2 ^ 53 * pow2 (scale_up x e - e)
   \<and> (e < scale_up x e \<longrightarrow> 2 ^ 52 * pow2 (scale_up x e - e) \<le> x)"
proof (induction x e rule: scale_up.induct)
  case (1 x e)
  show ?case
  proof (cases "x < 2 ^ 53")
    case True
    then show ?thesis by (simp add: scale_up.simps [of x e] pow2_0)
  next
    case False
    let ?r = "scale_up (x / 2) (e + 1)"
    have r: "scale_up x e = ?r" using False by (simp add: scale_up.simps [of x e])
    have ih: "e + 1 \<le> ?r" "x / 2 < 2 ^ 53 * pow2 (?r - (e + 1))"
      "e + 1 < ?r \<longrightarrow> 2 ^ 52 * pow2 (?r - (e + 1)) \<le> x / 2"
      using 1 [OF False] by simp_all
    have p: "pow2 (?r - e) = 2 * pow2 (?r - (e + 1))" by (rule pow2_diff_succ)
    have low: "2 ^ 52 * pow2 (?r - e) \<le> x"
    proof (cases "e + 1 < ?r")
      case True
      then show ?thesis using ih(3) p by simp
    next
      case False
      then have "?r = e + 1" using ih(1) by simp
      then have "pow2 (?r - e) = 2" by (simp add: pow2_1)
      then show ?thesis using \<open>\<not> x < 2 ^ 53\<close> by simp
    qed
    show ?thesis unfolding r using ih(1,2) p low by simp
  qed
qed

lemma scale_down_spec:
  assumes "x < 2 ^ 53" "- 1074 \<le> e"
  shows "- 1074 \<le> scale_down x e \<and> scale_down x e \<le> e
     \<and> x * pow2 (e - scale_down x e) < 2 ^ 53
     \<and> (- 1074 < scale_down x e \<longrightarrow> 2 ^ 52 \<le> x * pow2 (e - scale_down x e))"
  using assms
proof (induction x e rule: scale_down.induct)
  case (1 x e)
  show ?case
  proof (cases "2 ^ 52 \<le> x \<or> e \<le> - 1074")
    case True
    then show ?thesis using 1(2,3) by (auto simp: scale_down.simps [of x e] pow2_0)
  next
    case False
    let ?r = "scale_down (x * 2) (e - 1)"
    have r: "scale_down x e = ?r" using False by (simp add: scale_down.simps [of x e])
    have pre: "x * 2 < 2 ^ 53" "- 1074 \<le> e - 1" using False by simp_all
    have ih: "- 1074 \<le> ?r" "?r \<le> e - 1" "x * 2 * pow2 (e - 1 - ?r) < 2 ^ 53"
      "- 1074 < ?r \<longrightarrow> 2 ^ 52 \<le> x * 2 * pow2 (e - 1 - ?r)"
      using 1(1) [OF False pre] by simp_all
    have p: "pow2 (e - ?r) = 2 * pow2 (e - 1 - ?r)"
      using pow2_succ [of "e - 1 - ?r"] by simp
    show ?thesis unfolding r using ih p by (simp add: mult.assoc mult.left_commute)
  qed
qed

lemma exponent64_spec:
  "- 1074 \<le> exponent64 x \<and> x < 2 ^ 53 * pow2 (exponent64 x)
   \<and> (- 1074 < exponent64 x \<longrightarrow> 2 ^ 52 * pow2 (exponent64 x) \<le> x)"
proof (cases "2 ^ 53 \<le> x")
  case True
  then have e: "exponent64 x = scale_up x 0" by (simp add: exponent64_def)
  have s: "0 \<le> scale_up x 0" "x < 2 ^ 53 * pow2 (scale_up x 0)"
    "0 < scale_up x 0 \<longrightarrow> 2 ^ 52 * pow2 (scale_up x 0) \<le> x"
    using scale_up_spec [of 0 x] by simp_all
  have "scale_up x 0 \<noteq> 0" using s(2) True by (auto simp: pow2_0)
  then show ?thesis unfolding e using s by simp
next
  case False
  then have e: "exponent64 x = scale_down x 0" and x: "x < 2 ^ 53" by (simp_all add: exponent64_def)
  let ?r = "scale_down x 0"
  have s: "- 1074 \<le> ?r" "?r \<le> 0" "x * pow2 (0 - ?r) < 2 ^ 53"
    "- 1074 < ?r \<longrightarrow> 2 ^ 52 \<le> x * pow2 (0 - ?r)"
    using scale_down_spec [OF x, of 0] by simp_all
  have p: "pow2 (0 - ?r) = 1 / pow2 ?r" using pow2_minus [of ?r] by simp
  have pp: "0 < pow2 ?r" by (rule pow2_pos)
  have a: "x < 2 ^ 53 * pow2 ?r" using s(3) pp unfolding p by (simp add: field_simps)
  have b: "- 1074 < ?r \<longrightarrow> 2 ^ 52 * pow2 ?r \<le> x" using s(4) pp unfolding p by (simp add: field_simps)
  show ?thesis unfolding e using s(1) a b by simp
qed

lemma round_half_even_of_int: "round_half_even (of_int k) = k"
  by (simp add: round_half_even_def)





lemma round64_nonneg:
  "0 \<le> x \<Longrightarrow>
     round64 x = of_int (round_half_even (x / pow2 (exponent64 x))) * pow2 (exponent64 x)"
  by (simp add: round64_def Let_def)

lemma round64_eval:
  assumes "0 \<le> x" "exponent64 x = e" "round_half_even (x / pow2 e) = m"
  shows "round64 x = of_int m * pow2 e"
  using assms by (simp add: round64_nonneg)



lemma round64_nat:
  assumes "k \<le> 2 ^ 53"
  shows "round64 (real k) = real k"
proof -
  let ?e = "exponent64 (real k)"
  have k: "real k \<le> 2 ^ 53" using assms by (metis of_nat_le_iff of_nat_numeral of_nat_power)
  have "\<exists>j. real k / pow2 ?e = of_int j"
  proof (cases "?e \<le> 0")
    case True
    then have "real k / pow2 ?e = of_int (int k * 2 ^ nat (- ?e))"
      by (simp add: pow2_def)
    then show ?thesis by blast
  next
    case False
    then have pos: "1 \<le> ?e" by simp
    then have low: "2 ^ 52 * pow2 ?e \<le> real k" using exponent64_spec [of "real k"] by simp
    have "?e = 1"
    proof (rule ccontr)
      assume "?e \<noteq> 1"
      then have "1 + 1 \<le> ?e" using pos by simp
      then have "pow2 (1 + 1) \<le> pow2 ?e" by (rule pow2_mono)
      then have "4 \<le> pow2 ?e" by (simp add: pow2_def)
      then have "2 ^ 52 * 4 \<le> 2 ^ 52 * pow2 ?e" by simp
      then show False using low k by simp
    qed
    then have e1: "pow2 ?e = 2" by (simp add: pow2_1)
    have "real k = 2 ^ 53" using low k unfolding e1 by simp
    then have "real k / pow2 ?e = of_int (2 ^ 52)" unfolding e1 by simp
    then show ?thesis by blast
  qed
  then obtain j where j: "real k / pow2 ?e = of_int j" by blast
  have "round64 (real k) = of_int (round_half_even (real k / pow2 ?e)) * pow2 ?e"
    by (rule round64_nonneg) simp
  also have "\<dots> = of_int j * pow2 ?e" by (simp only: j round_half_even_of_int)
  also have "\<dots> = real k / pow2 ?e * pow2 ?e" by (simp only: j)
  also have "\<dots> = real k" using pow2_pos [of ?e] by simp
  finally show ?thesis .
qed

subsection \<open>The point counter\<close>

lemma foldl_dietPoints_ge: "p \<le> foldl dietPoints p ds"
proof (induction ds arbitrary: p)
  case Nil
  show ?case by simp
next
  case (Cons d ds)
  have "p \<le> dietPoints p d" by (simp add: dietPoints_def Let_def)
  also have "\<dots> \<le> foldl dietPoints (dietPoints p d) ds" by (rule Cons.IH)
  finally show ?case by simp
qed

lemma foldl_exercisePoints_ge: "p \<le> foldl exercisePoints p es"
proof (induction es arbitrary: p)
  case Nil
  show ?case by simp
next
  case (Cons e es)
  have "p \<le> exercisePoints p e" by (simp add: exercisePoints_def Let_def)
  also have "\<dots> \<le> foldl exercisePoints (exercisePoints p e) es" by (rule Cons.IH)
  finally show ?case by simp
qed

lemma foldl_sleepPoints_ge: "p \<le> foldl sleepPoints p ss"
proof (induction ss arbitrary: p)
  case Nil
  show ?case by simp
next
  case (Cons s ss)
  have "p \<le> sleepPoints p s" by (simp add: sleepPoints_def Let_def)
  also have "\<dots> \<le> foldl sleepPoints (sleepPoints p s) ss" by (rule Cons.IH)
  finally show ?case by simp
qed

lemma foldl_exercisePoints_mono: "p \<le> q \<Longrightarrow> foldl exercisePoints p es \<le> foldl exercisePoints q es"
  by (induction es arbitrary: p q) (simp_all add: exercisePoints_def Let_def)

lemma foldl_sleepPoints_mono: "p \<le> q \<Longrightarrow> foldl sleepPoints p ss \<le> foldl sleepPoints q ss"
  by (induction ss arbitrary: p q) (simp_all add: sleepPoints_def Let_def)

lemma totalPoints_eq: "totalPoints (calculateGamificationState ds es ss) = points_of ds es ss"
  by (simp add: calculateGamificationState_def points_of_def Let_def)

lemma level_eq:
  "level (calculateGamificationState ds es ss) = \<lfloor>real_of_int (points_of ds es ss) / 200\<rfloor> + 1"
  by (simp add: calculateGamificationState_def points_of_def Let_def)

lemma progress_eq:
  "progressToNextLevel (calculateGamificationState ds es ss) =
     \<lfloor>real_of_int (js_rem (points_of ds es ss) 200) / 200 * 100\<rfloor>"
  by (simp add: calculateGamificationState_def points_of_def Let_def)

lemma points_of_nonneg: "0 \<le> points_of ds es ss"
proof -
  have "0 \<le> foldl dietPoints 0 ds" by (rule foldl_dietPoints_ge)
  also have "\<dots> \<le> foldl exercisePoints (foldl dietPoints 0 ds) es" by (rule foldl_exercisePoints_ge)
  also have "\<dots> \<le> points_of ds es ss" unfolding points_of_def by (rule foldl_sleepPoints_ge)
  finally show ?thesis .
qed

lemma five_dvd_dietPoints: "5 dvd p \<Longrightarrow> 5 dvd foldl dietPoints p ds"
  by (induction ds arbitrary: p) (simp_all add: dietPoints_def Let_def)

lemma five_dvd_exercisePoints: "5 dvd p \<Longrightarrow> 5 dvd foldl exercisePoints p es"
  by (induction es arbitrary: p) (simp_all add: exercisePoints_def Let_def)

lemma five_dvd_sleepPoints: "5 dvd p \<Longrightarrow> 5 dvd foldl sleepPoints p ss"
  by (induction ss arbitrary: p) (simp_all add: sleepPoints_def Let_def)

lemma five_dvd_points: "5 dvd points_of ds es ss"
  unfolding points_of_def
  by (intro five_dvd_sleepPoints five_dvd_exercisePoints five_dvd_dietPoints) simp

lemma js_rem_nonneg: "0 \<le> a \<Longrightarrow> js_rem a 200 = a mod 200"
  by (cases "a = 0") (simp_all add: js_rem_def)

lemma floor_half: "\<lfloor>real_of_int r / 200 * 100\<rfloor> = r div 2"
proof -
  have "real_of_int r / 200 * 100 = real_of_int r / real_of_int 2" by simp
  then show ?thesis by (simp only: floor_divide_of_int_eq)
qed

lemma floor_level: "\<lfloor>real_of_int p / 200\<rfloor> = p div 200"
proof -
  have "real_of_int p / 200 = real_of_int p / real_of_int 200" by simp
  then show ?thesis by (simp only: floor_divide_of_int_eq)
qed

lemma floor_div_mono: "p \<le> q \<Longrightarrow> \<lfloor>real_of_int p / 200\<rfloor> \<le> \<lfloor>real_of_int q / 200\<rfloor>"
  by (intro floor_mono divide_right_mono) simp_all

subsection \<open>Bedtimes written HH:mm\<close>

lemma analyzeSleep_late_iff:
  "lateNightAdvice \<in> set (analyzeSleep es) \<longleftrightarrow> 2 < length (filter isLateNight es)"
  by (simp add: analyzeSleep_def Let_def lateNightAdvice_def)

lemma below_ten:
  "(a::nat) < 10 \<Longrightarrow> a = 0 \<or> a = 1 \<or> a = 2 \<or> a = 3 \<or> a = 4 \<or> a = 5 \<or> a = 6 \<or> a = 7 \<or> a = 8 \<or> a = 9"
  by arith

lemma digit_char_facts:
  assumes "a < 10"
  shows "digitValue (digit_char a) = Some a"
    and "\<not> isStrWhiteSpaceChar (digit_char a)"
    and "digit_char a \<noteq> CHR '':''" and "digit_char a \<noteq> CHR ''-''"
    and "digit_char a \<noteq> CHR ''+''" and "digit_char a \<noteq> CHR ''.''"
    and "digit_char a \<noteq> CHR ''I''"
  using below_ten [OF assms]
  by (elim disjE; simp add: digit_char_def digitValue_def isStrWhiteSpaceChar_def)+

lemma isDigitOf_digit_char: "a < 10 \<Longrightarrow> isDigitOf 10 (digit_char a)"
  by (simp add: isDigitOf_def digit_char_facts(1))

lemma digitsValue_two:
  "a < 10 \<Longrightarrow> b < 10 \<Longrightarrow> digitsValue 10 [digit_char a, digit_char b] = 10 * a + b"
  by (simp add: digitsValue_def digit_char_facts(1))

lemma trim_two:
  "a < 10 \<Longrightarrow> b < 10 \<Longrightarrow> trim [digit_char a, digit_char b] = [digit_char a, digit_char b]"
  by (simp add: trim_def digit_char_facts(2))

lemma nonDecimal_two: "nonDecimal [c1, c2] = None"
  by (simp add: nonDecimal_def allDigitsOf_def)

lemma unsignedDecimal_two:
  assumes "a < 10" "b < 10"
  shows "unsignedDecimal [digit_char a, digit_char b] = Finite (real (10 * a + b))"
proof -
  have tw: "takeWhile (isDigitOf 10) [digit_char a, digit_char b] = [digit_char a, digit_char b]"
    using assms by (simp add: isDigitOf_digit_char)
  have dw: "dropWhile (isDigitOf 10) [digit_char a, digit_char b] = []"
    using assms by (simp add: isDigitOf_digit_char)
  show ?thesis
    unfolding unsignedDecimal_def tw dw Let_def
    using assms by (simp add: digitsValue_two) (simp add: digitsValue_def)
qed

lemma Number_two_digits:
  assumes "a < 10" "b < 10"
  shows "Number_of_string [digit_char a, digit_char b] = Finite (real (10 * a + b))"
  unfolding Number_of_string_def Let_def trim_two [OF assms] nonDecimal_two
  using assms by (simp add: unsignedDecimal_two digit_char_facts)

lemma parseInt_two_digits:
  assumes "a < 10" "b < 10"
  shows "parseInt (Some [digit_char a, digit_char b]) = Finite (real (10 * a + b))"
proof -
  have nox: "digit_char b \<noteq> CHR ''x''" "digit_char b \<noteq> CHR ''X''"
    using below_ten [OF assms(2)] by (elim disjE; simp add: digit_char_def)+
  have tw: "takeWhile (isDigitOf 10) [digit_char a, digit_char b] = [digit_char a, digit_char b]"
    using assms by (simp add: isDigitOf_digit_char)
  show ?thesis
    unfolding parseInt_def Let_def
    using assms nox tw by (simp add: digit_char_facts digitsValue_two)
qed

lemma two_digits: "10 * (h div 10) + h mod 10 = (h::nat)"
  by simp

lemma isLateNight_hhmm:
  assumes "h < 24" "m < 60" "bedTime d = hhmm h m"
  shows "isLateNight d \<longleftrightarrow> lateTime (h, m)"
proof -
  have hd: "h div 10 < 10" "h mod 10 < 10" "m div 10 < 10" "m mod 10 < 10"
    using assms by simp_all
  have sp: "split_colon (bedTime d) =
      [[digit_char (h div 10), digit_char (h mod 10)], [digit_char (m div 10), digit_char (m mod 10)]]"
    unfolding assms(3) hhmm_def using hd by (simp add: digit_char_facts(3))
  have hour: "Number_of_string [digit_char (h div 10), digit_char (h mod 10)] = Finite (real h)"
    by (simp only: Number_two_digits [OF hd(1) hd(2)] two_digits)
  have minute: "parseInt (Some [digit_char (m div 10), digit_char (m mod 10)]) = Finite (real m)"
    by (simp only: parseInt_two_digits [OF hd(3) hd(4)] two_digits)
  show ?thesis
    unfolding isLateNight_def sp Let_def list.case hour minute lateTime_def
    by simp
qed

lemma lateNights_count:
  assumes "list_all2 (\<lambda>e (h, m). h < 24 \<and> m < 60 \<and> bedTime e = hhmm h m) es tms"
  shows "length (filter isLateNight es) = length (filter lateTime tms)"
  using assms
proof (induction rule: list_all2_induct)
  case Nil
  show ?case by simp
next
  case (Cons e es t tms)
  obtain h m where t: "t = (h, m)" by (cases t)
  have "isLateNight e \<longleftrightarrow> lateTime t"
    using Cons.hyps(1) unfolding t by (simp add: isLateNight_hhmm)
  then show ?case using Cons.IH by simp
qed

subsection \<open>The streak loop and runs\<close>

lemma hasRun_takeWhile: "0 < k \<Longrightarrow> k \<le> length (takeWhile P xs) \<Longrightarrow> hasRun k P xs"
  by (cases xs) auto

lemma streak_loop:
  assumes "c \<le> m" "0 < k"
  shows "k \<le> snd (foldl streakStep (c, m) xs)
     \<longleftrightarrow> k \<le> m \<or> k \<le> c + length (takeWhile sevenHours xs) \<or> hasRun k sevenHours xs"
  using assms
proof (induction xs arbitrary: c m)
  case Nil
  then show ?case by auto
next
  case (Cons x xs)
  show ?case
  proof (cases "sevenHours x")
    case True
    have step: "streakStep (c, m) x = (c + 1, max m (c + 1))"
      using True by (simp add: streakStep_def sevenHours_def)
    have "k \<le> snd (foldl streakStep (c + 1, max m (c + 1)) xs)
        \<longleftrightarrow> k \<le> max m (c + 1) \<or> k \<le> c + 1 + length (takeWhile sevenHours xs)
            \<or> hasRun k sevenHours xs"
      by (rule Cons.IH) (use Cons.prems in simp_all)
    then show ?thesis using True step by auto
  next
    case False
    have step: "streakStep (c, m) x = (0, m)"
      using False by (simp add: streakStep_def sevenHours_def)
    have "k \<le> snd (foldl streakStep (0, m) xs)
        \<longleftrightarrow> k \<le> m \<or> k \<le> 0 + length (takeWhile sevenHours xs) \<or> hasRun k sevenHours xs"
      by (rule Cons.IH) (use Cons.prems in simp_all)
    then show ?thesis
      using False step Cons.prems hasRun_takeWhile [of k sevenHours xs] by auto
  qed
qed

lemma prefix_all_takeWhile:
  assumes "prefix run xs" "\<forall>s \<in> set run. P s"
  shows "length run \<le> length (takeWhile P xs)"
proof -
  have "prefix (takeWhile P run) (takeWhile P xs)" using assms(1) by (rule prefix_takeWhile)
  moreover have "takeWhile P run = run" using assms(2) by simp
  ultimately show ?thesis by (simp add: prefix_length_le)
qed

lemma hasRun_sublist:
  assumes "0 < k"
  shows "hasRun k P xs \<longleftrightarrow> (\<exists>run. sublist run xs \<and> k \<le> length run \<and> (\<forall>s \<in> set run. P s))"
  using assms
proof (induction xs)
  case Nil
  then show ?case by auto
next
  case (Cons x xs)
  have "(\<exists>run. sublist run (x # xs) \<and> k \<le> length run \<and> (\<forall>s \<in> set run. P s))
      \<longleftrightarrow> (\<exists>run. prefix run (x # xs) \<and> k \<le> length run \<and> (\<forall>s \<in> set run. P s))
          \<or> (\<exists>run. sublist run xs \<and> k \<le> length run \<and> (\<forall>s \<in> set run. P s))"
    by (auto simp: sublist_Cons_right)
  moreover have "(\<exists>run. prefix run (x # xs) \<and> k \<le> length run \<and> (\<forall>s \<in> set run. P s))
      \<longleftrightarrow> k \<le> length (takeWhile P (x # xs))"
  proof
    assume "\<exists>run. prefix run (x # xs) \<and> k \<le> length run \<and> (\<forall>s \<in> set run. P s)"
    then obtain run where r: "prefix run (x # xs)" "k \<le> length run" "\<forall>s \<in> set run. P s"
      by blast
    from prefix_all_takeWhile [OF r(1) r(3)] r(2)
    show "k \<le> length (takeWhile P (x # xs))" by linarith
  next
    assume k: "k \<le> length (takeWhile P (x # xs))"
    have "prefix (takeWhile P (x # xs)) (x # xs)" by (rule takeWhile_is_prefix)
    moreover have "\<forall>s \<in> set (takeWhile P (x # xs)). P s" by (meson set_takeWhileD)
    ultimately show "\<exists>run. prefix run (x # xs) \<and> k \<le> length run \<and> (\<forall>s \<in> set run. P s)"
      using k by blast
  qed
  ultimately show ?case using Cons by simp
qed

lemma sleep_streak_unlocked:
  "badgeUnlocked ''sleep_streak'' (calculateGamificationState ds es ss) \<longleftrightarrow> 3 \<le> maxSleepStreak ss"
  by (simp add: badgeUnlocked_def calculateGamificationState_def Let_def)

subsection \<open>Sorting by date\<close>

lemma getTime_samples:
  "getTime ''2024-01-01'' = Some 1704067200000"
  "getTime ''2024-01-03'' = Some 1704240000000"
  "getTime ''2024-01-04'' = Some 1704326400000"
  "getTime ''2024-01-08'' = Some 1704672000000"
  "getTime ''2024-01-10'' = Some 1704844800000"
  "getTime ''2024-01-20'' = Some 1705708800000"
  "getTime ''2024-02-01'' = Some 1706745600000"
  by (simp_all add: getTime_def allDigitsOf_def isDigitOf_def digitValue_def digitsValue_def
      daysInMonth_def dayOfDate_def dayFromYear_def isLeapYear_def upto.simps)

lemma sortedSleeps_sleepWeek: "sortedSleeps sleepWeek = sleepWeek"
  by (simp add: sortedSleeps_def sort_array_def sleepWeek_def sleepAt_def compareByDate_def
      SortCompare_def getTime_samples)

lemma sortedSleeps_sleepShuffled: "sortedSleeps sleepShuffled = sleepWeek"
  by (simp add: sortedSleeps_def sort_array_def sleepShuffled_def sleepWeek_def sleepAt_def
      compareByDate_def SortCompare_def getTime_samples)

lemma insertSorted_insort_key:
  assumes "getTime (sleep_date x) \<noteq> None" "\<forall>y \<in> set ys. getTime (sleep_date y) \<noteq> None"
  shows "insertSorted compareByDate x ys = insort_key (\<lambda>s. the (getTime (sleep_date s))) x ys"
  using assms by (induction ys) (auto simp: SortCompare_def compareByDate_def)

lemma sortedSleeps_sort_key:
  assumes "\<forall>s \<in> set ss. getTime (sleep_date s) \<noteq> None"
  shows "sortedSleeps ss = sort_key (\<lambda>s. the (getTime (sleep_date s))) ss"
  using assms
proof (induction ss)
  case Nil
  show ?case by (simp add: sortedSleeps_def sort_array_def)
next
  case (Cons s ss)
  have ih: "sortedSleeps ss = sort_key (\<lambda>s. the (getTime (sleep_date s))) ss"
    using Cons by simp
  have "sortedSleeps (s # ss) = insertSorted compareByDate s (sortedSleeps ss)"
    by (simp add: sortedSleeps_def sort_array_def)
  also have "\<dots> = insort_key (\<lambda>s. the (getTime (sleep_date s))) s (sortedSleeps ss)"
    using Cons.prems by (intro insertSorted_insort_key) (simp_all add: ih)
  finally show ?case by (simp add: ih sort_key_def)
qed

subsection \<open>Binary64 sums of the sample meals\<close>

lemma reduce_average64:
  "div64 (foldl (\<lambda>sum d. add64 sum (f d)) 0 xs) (real (length xs)) = average64 f xs"
  by (simp add: average64_def sum64_def foldl_map)

lemma round64_zero: "round64 0 = 0"
  using round64_nat [of 0] by simp

lemma add64_zero: "add64 0 0 = 0"
  by (simp add: add64_def round64_zero)

lemma lit_0_2: "literal64 (0.2) = 3602879701896397 / 18014398509481984"
proof -
  have e: "exponent64 (0.2) = - 55"
    by (simp add: exponent64_def scale_down.simps)
  have m: "round_half_even ((0.2) / pow2 (- 55)) = 7205759403792794"
    by (simp add: round_half_even_def Let_def pow2_def)
  have "round64 (0.2) = of_int 7205759403792794 * pow2 (- 55)"
    by (rule round64_eval [OF _ e m]) simp
  then show ?thesis by (simp add: literal64_def pow2_def)
qed

lemma lit_0_7: "literal64 (0.7) = 3152519739159347 / 4503599627370496"
proof -
  have e: "exponent64 (0.7) = - 53"
    by (simp add: exponent64_def scale_down.simps)
  have m: "round_half_even ((0.7) / pow2 (- 53)) = 6305039478318694"
    by (simp add: round_half_even_def Let_def pow2_def)
  have "round64 (0.7) = of_int 6305039478318694 * pow2 (- 53)"
    by (rule round64_eval [OF _ e m]) simp
  then show ?thesis by (simp add: literal64_def pow2_def)
qed

lemma lit_0_9: "literal64 (0.9) = 8106479329266893 / 9007199254740992"
proof -
  have e: "exponent64 (0.9) = - 53"
    by (simp add: exponent64_def scale_down.simps)
  have m: "round_half_even ((0.9) / pow2 (- 53)) = 8106479329266893"
    by (simp add: round_half_even_def Let_def pow2_def)
  have "round64 (0.9) = of_int 8106479329266893 * pow2 (- 53)"
    by (rule round64_eval [OF _ e m]) simp
  then show ?thesis by (simp add: literal64_def pow2_def)
qed

lemma lit_0_3: "literal64 (0.3) = 5404319552844595 / 18014398509481984"
proof -
  have e: "exponent64 (0.3) = - 54"
    by (simp add: exponent64_def scale_down.simps)
  have m: "round_half_even ((0.3) / pow2 (- 54)) = 5404319552844595"
    by (simp add: round_half_even_def Let_def pow2_def)
  have "round64 (0.3) = of_int 5404319552844595 * pow2 (- 54)"
    by (rule round64_eval [OF _ e m]) simp
  then show ?thesis by (simp add: literal64_def pow2_def)
qed

lemma lit_0_57: "literal64 (0.57) = 5134103575202365 / 9007199254740992"
proof -
  have e: "exponent64 (0.57) = - 53"
    by (simp add: exponent64_def scale_down.simps)
  have m: "round_half_even ((0.57) / pow2 (- 53)) = 5134103575202365"
    by (simp add: round_half_even_def Let_def pow2_def)
  have "round64 (0.57) = of_int 5134103575202365 * pow2 (- 53)"
    by (rule round64_eval [OF _ e m]) simp
  then show ?thesis by (simp add: literal64_def pow2_def)
qed

lemma veg_sum_1: "add64 0 (3602879701896397 / 18014398509481984) = 3602879701896397 / 18014398509481984"
proof -
  have e: "exponent64 (0 + (3602879701896397 / 18014398509481984)) = - 55"
    by (simp add: exponent64_def scale_down.simps)
  have m: "round_half_even ((0 + (3602879701896397 / 18014398509481984)) / pow2 (- 55)) = 7205759403792794"
    by (simp add: round_half_even_def Let_def pow2_def)
  have "round64 (0 + (3602879701896397 / 18014398509481984)) = of_int 7205759403792794 * pow2 (- 55)"
    by (rule round64_eval [OF _ e m]) simp
  then show ?thesis by (simp add: add64_def pow2_def)
qed

lemma veg_sum_2: "add64 (3602879701896397 / 18014398509481984) (3152519739159347 / 4503599627370496) = 2026619832316723 / 2251799813685248"
proof -
  have e: "exponent64 ((3602879701896397 / 18014398509481984) + (3152519739159347 / 4503599627370496)) = - 53"
    by (simp add: exponent64_def scale_down.simps)
  have m: "round_half_even (((3602879701896397 / 18014398509481984) + (3152519739159347 / 4503599627370496)) / pow2 (- 53)) = 8106479329266892"
    by (simp add: round_half_even_def Let_def pow2_def)
  have "round64 ((3602879701896397 / 18014398509481984) + (3152519739159347 / 4503599627370496)) = of_int 8106479329266892 * pow2 (- 53)"
    by (rule round64_eval [OF _ e m]) simp
  then show ?thesis by (simp add: add64_def pow2_def)
qed

lemma veg_sum_3: "add64 (2026619832316723 / 2251799813685248) (8106479329266893 / 9007199254740992) = 2026619832316723 / 1125899906842624"
proof -
  have e: "exponent64 ((2026619832316723 / 2251799813685248) + (8106479329266893 / 9007199254740992)) = - 52"
    by (simp add: exponent64_def scale_down.simps)
  have m: "round_half_even (((2026619832316723 / 2251799813685248) + (8106479329266893 / 9007199254740992)) / pow2 (- 52)) = 8106479329266892"
    by (simp add: round_half_even_def Let_def pow2_def)
  have "round64 ((2026619832316723 / 2251799813685248) + (8106479329266893 / 9007199254740992)) = of_int 8106479329266892 * pow2 (- 52)"
    by (rule round64_eval [OF _ e m]) simp
  then show ?thesis by (simp add: add64_def pow2_def)
qed

lemma veg_sum_4: "add64 (2026619832316723 / 1125899906842624) (3602879701896397 / 18014398509481984) = 9007199254740991 / 4503599627370496"
proof -
  have e: "exponent64 ((2026619832316723 / 1125899906842624) + (3602879701896397 / 18014398509481984)) = - 52"
    by (simp add: exponent64_def scale_down.simps)
  have m: "round_half_even (((2026619832316723 / 1125899906842624) + (3602879701896397 / 18014398509481984)) / pow2 (- 52)) = 9007199254740991"
    by (simp add: round_half_even_def Let_def pow2_def)
  have "round64 ((2026619832316723 / 1125899906842624) + (3602879701896397 / 18014398509481984)) = of_int 9007199254740991 * pow2 (- 52)"
    by (rule round64_eval [OF _ e m]) simp
  then show ?thesis by (simp add: add64_def pow2_def)
qed

lemma veg_avg: "div64 (9007199254740991 / 4503599627370496) 4 = 9007199254740991 / 18014398509481984"
proof -
  have e: "exponent64 ((9007199254740991 / 4503599627370496) / 4) = - 54"
    by (simp add: exponent64_def scale_down.simps)
  have m: "round_half_even (((9007199254740991 / 4503599627370496) / 4) / pow2 (- 54)) = 9007199254740991"
    by (simp add: round_half_even_def Let_def pow2_def)
  have "round64 ((9007199254740991 / 4503599627370496) / 4) = of_int 9007199254740991 * pow2 (- 54)"
    by (rule round64_eval [OF _ e m]) simp
  then show ?thesis by (simp add: div64_def pow2_def)
qed

lemma protein_sum_1: "add64 0 (5404319552844595 / 18014398509481984) = 5404319552844595 / 18014398509481984"
proof -
  have e: "exponent64 (0 + (5404319552844595 / 18014398509481984)) = - 54"
    by (simp add: exponent64_def scale_down.simps)
  have m: "round_half_even ((0 + (5404319552844595 / 18014398509481984)) / pow2 (- 54)) = 5404319552844595"
    by (simp add: round_half_even_def Let_def pow2_def)
  have "round64 (0 + (5404319552844595 / 18014398509481984)) = of_int 5404319552844595 * pow2 (- 54)"
    by (rule round64_eval [OF _ e m]) simp
  then show ?thesis by (simp add: add64_def pow2_def)
qed

lemma protein_sum_2: "add64 (5404319552844595 / 18014398509481984) (5404319552844595 / 18014398509481984) = 5404319552844595 / 9007199254740992"
proof -
  have e: "exponent64 ((5404319552844595 / 18014398509481984) + (5404319552844595 / 18014398509481984)) = - 53"
    by (simp add: exponent64_def scale_down.simps)
  have m: "round_half_even (((5404319552844595 / 18014398509481984) + (5404319552844595 / 18014398509481984)) / pow2 (- 53)) = 5404319552844595"
    by (simp add: round_half_even_def Let_def pow2_def)
  have "round64 ((5404319552844595 / 18014398509481984) + (5404319552844595 / 18014398509481984)) = of_int 5404319552844595 * pow2 (- 53)"
    by (rule round64_eval [OF _ e m]) simp
  then show ?thesis by (simp add: add64_def pow2_def)
qed

lemma protein_sum_3: "add64 (5404319552844595 / 9007199254740992) (5404319552844595 / 18014398509481984) = 2026619832316723 / 2251799813685248"
proof -
  have e: "exponent64 ((5404319552844595 / 9007199254740992) + (5404319552844595 / 18014398509481984)) = - 53"
    by (simp add: exponent64_def scale_down.simps)
  have m: "round_half_even (((5404319552844595 / 9007199254740992) + (5404319552844595 / 18014398509481984)) / pow2 (- 53)) = 8106479329266892"
    by (simp add: round_half_even_def Let_def pow2_def)
  have "round64 ((5404319552844595 / 9007199254740992) + (5404319552844595 / 18014398509481984)) = of_int 8106479329266892 * pow2 (- 53)"
    by (rule round64_eval [OF _ e m]) simp
  then show ?thesis by (simp add: add64_def pow2_def)
qed

lemma protein_sum_4: "add64 (2026619832316723 / 2251799813685248) (5404319552844595 / 18014398509481984) = 5404319552844595 / 4503599627370496"
proof -
  have e: "exponent64 ((2026619832316723 / 2251799813685248) + (5404319552844595 / 18014398509481984)) = - 52"
    by (simp add: exponent64_def scale_down.simps)
  have m: "round_half_even (((2026619832316723 / 2251799813685248) + (5404319552844595 / 18014398509481984)) / pow2 (- 52)) = 5404319552844595"
    by (simp add: round_half_even_def Let_def pow2_def)
  have "round64 ((2026619832316723 / 2251799813685248) + (5404319552844595 / 18014398509481984)) = of_int 5404319552844595 * pow2 (- 52)"
    by (rule round64_eval [OF _ e m]) simp
  then show ?thesis by (simp add: add64_def pow2_def)
qed

lemma protein_avg: "div64 (5404319552844595 / 4503599627370496) 4 = 5404319552844595 / 18014398509481984"
proof -
  have e: "exponent64 ((5404319552844595 / 4503599627370496) / 4) = - 54"
    by (simp add: exponent64_def scale_down.simps)
  have m: "round_half_even (((5404319552844595 / 4503599627370496) / 4) / pow2 (- 54)) = 5404319552844595"
    by (simp add: round_half_even_def Let_def pow2_def)
  have "round64 ((5404319552844595 / 4503599627370496) / 4) = of_int 5404319552844595 * pow2 (- 54)"
    by (rule round64_eval [OF _ e m]) simp
  then show ?thesis by (simp add: div64_def pow2_def)
qed

lemma half_sum_1: "add64 0 (1 / 2) = 1 / 2"
proof -
  have e: "exponent64 (0 + (1 / 2)) = - 53"
    by (simp add: exponent64_def scale_down.simps)
  have m: "round_half_even ((0 + (1 / 2)) / pow2 (- 53)) = 4503599627370496"
    by (simp add: round_half_even_def Let_def pow2_def)
  have "round64 (0 + (1 / 2)) = of_int 4503599627370496 * pow2 (- 53)"
    by (rule round64_eval [OF _ e m]) simp
  then show ?thesis by (simp add: add64_def pow2_def)
qed

lemma half_sum_2: "add64 (1 / 2) (1 / 2) = 1"
proof -
  have e: "exponent64 ((1 / 2) + (1 / 2)) = - 52"
    by (simp add: exponent64_def scale_down.simps)
  have m: "round_half_even (((1 / 2) + (1 / 2)) / pow2 (- 52)) = 4503599627370496"
    by (simp add: round_half_even_def Let_def pow2_def)
  have "round64 ((1 / 2) + (1 / 2)) = of_int 4503599627370496 * pow2 (- 52)"
    by (rule round64_eval [OF _ e m]) simp
  then show ?thesis by (simp add: add64_def pow2_def)
qed

lemma half_avg: "div64 1 2 = 1 / 2"
proof -
  have e: "exponent64 (1 / 2) = - 53"
    by (simp add: exponent64_def scale_down.simps)
  have m: "round_half_even ((1 / 2) / pow2 (- 53)) = 4503599627370496"
    by (simp add: round_half_even_def Let_def pow2_def)
  have "round64 (1 / 2) = of_int 4503599627370496 * pow2 (- 53)"
    by (rule round64_eval [OF _ e m]) simp
  then show ?thesis by (simp add: div64_def pow2_def)
qed

lemma quarter_sum_1: "add64 0 (1 / 4) = 1 / 4"
proof -
  have e: "exponent64 (0 + (1 / 4)) = - 54"
    by (simp add: exponent64_def scale_down.simps)
  have m: "round_half_even ((0 + (1 / 4)) / pow2 (- 54)) = 4503599627370496"
    by (simp add: round_half_even_def Let_def pow2_def)
  have "round64 (0 + (1 / 4)) = of_int 4503599627370496 * pow2 (- 54)"
    by (rule round64_eval [OF _ e m]) simp
  then show ?thesis by (simp add: add64_def pow2_def)
qed

lemma quarter_sum_2: "add64 (1 / 4) (1 / 4) = 1 / 2"
proof -
  have e: "exponent64 ((1 / 4) + (1 / 4)) = - 53"
    by (simp add: exponent64_def scale_down.simps)
  have m: "round_half_even (((1 / 4) + (1 / 4)) / pow2 (- 53)) = 4503599627370496"
    by (simp add: round_half_even_def Let_def pow2_def)
  have "round64 ((1 / 4) + (1 / 4)) = of_int 4503599627370496 * pow2 (- 53)"
    by (rule round64_eval [OF _ e m]) simp
  then show ?thesis by (simp add: add64_def pow2_def)
qed

lemma quarter_avg: "div64 (1 / 2) 2 = 1 / 4"
proof -
  have e: "exponent64 ((1 / 2) / 2) = - 54"
    by (simp add: exponent64_def scale_down.simps)
  have m: "round_half_even (((1 / 2) / 2) / pow2 (- 54)) = 4503599627370496"
    by (simp add: round_half_even_def Let_def pow2_def)
  have "round64 ((1 / 2) / 2) = of_int 4503599627370496 * pow2 (- 54)"
    by (rule round64_eval [OF _ e m]) simp
  then show ?thesis by (simp add: div64_def pow2_def)
qed

lemma one_sum: "add64 0 1 = 1"
proof -
  have e: "exponent64 (0 + 1) = - 52"
    by (simp add: exponent64_def scale_down.simps)
  have m: "round_half_even ((0 + 1) / pow2 (- 52)) = 4503599627370496"
    by (simp add: round_half_even_def Let_def pow2_def)
  have "round64 (0 + 1) = of_int 4503599627370496 * pow2 (- 52)"
    by (rule round64_eval [OF _ e m]) simp
  then show ?thesis by (simp add: add64_def pow2_def)
qed

lemma mealsHalfVeg_veg:
  "foldl (\<lambda>sum d. add64 sum (vegRatio d)) 0 mealsHalfVeg = 9007199254740991 / 4503599627370496"
proof -
  have "foldl (\<lambda>sum d. add64 sum (vegRatio d)) 0 mealsHalfVeg
      = add64 (add64 (add64 (add64 0 (literal64 0.2)) (literal64 0.7)) (literal64 0.9)) (literal64 0.2)"
    by (simp add: mealsHalfVeg_def meal_def)
  also have "\<dots> = 9007199254740991 / 4503599627370496"
    by (simp only: lit_0_2 lit_0_7 lit_0_9 veg_sum_1 veg_sum_2 veg_sum_3 veg_sum_4)
  finally show ?thesis .
qed

lemma mealsHalfVeg_protein:
  "foldl (\<lambda>sum d. add64 sum (proteinRatio d)) 0 mealsHalfVeg = 5404319552844595 / 4503599627370496"
proof -
  have "foldl (\<lambda>sum d. add64 sum (proteinRatio d)) 0 mealsHalfVeg
      = add64 (add64 (add64 (add64 0 (literal64 0.3)) (literal64 0.3)) (literal64 0.3)) (literal64 0.3)"
    by (simp add: mealsHalfVeg_def meal_def)
  also have "\<dots> = 5404319552844595 / 4503599627370496"
    by (simp only: lit_0_3 protein_sum_1 protein_sum_2 protein_sum_3 protein_sum_4)
  finally show ?thesis .
qed

lemma mealsHalfVeg_sugary:
  "foldl (\<lambda>sum d. add64 sum (sugaryDrinksCount d)) 0 mealsHalfVeg = 0"
  by (simp add: mealsHalfVeg_def meal_def add64_zero)

subsection \<open>Binary64 sums of the sample drink counts\<close>













subsection \<open>Integer counts: exact sums and the threshold 0.57\<close>




section \<open>Claims\<close>

text \<open>
  C1. On the empty input each analyzer returns the empty sequence, and
  calculateGamificationState on three empty sequences returns totalPoints 0, level 1,
  progressToNextLevel 0, the four badges all locked and the three challenges all with
  current 0 and not completed.
\<close>

theorem empty_inputs:
  "analyzeDiet [] = [] \<and> analyzeExercise [] = [] \<and> analyzeSleep [] = []
   \<and> totalPoints (calculateGamificationState [] [] []) = 0
   \<and> level (calculateGamificationState [] [] []) = 1
   \<and> progressToNextLevel (calculateGamificationState [] [] []) = 0
   \<and> map badge_id (badges (calculateGamificationState [] [] []))
       = [''first_step'', ''step_master'', ''sleep_streak'', ''clean_eater'']
   \<and> map isUnlocked (badges (calculateGamificationState [] [] [])) = [False, False, False, False]
   \<and> map challenge_id (challenges (calculateGamificationState [] [] []))
       = [''weekly_steps'', ''active_week'', ''balanced_diet'']
   \<and> map current (challenges (calculateGamificationState [] [] [])) = [0, 0, 0]
   \<and> map isCompleted (challenges (calculateGamificationState [] [] [])) = [False, False, False]"
  by (simp add: analyzeDiet_def analyzeExercise_def analyzeSleep_def calculateGamificationState_def
      maxSleepStreak_def sortedSleeps_def sort_array_def js_rem_def Let_def)

text \<open>
  C2, as stated with exact averages, fails: the four meals with vegRatio 0.2, 0.7, 0.9,
  0.2 and proteinRatio 0.3 have averages of exactly 1/2 and at least 1/4 and no sugary
  drink, yet the binary64 sum of the vegRatio values is just below 2, the computed
  average is below 0.5, and analyzeDiet returns the nutrition item.
\<close>

theorem analyzeDiet_exact_average_counterexample:
  "mealsHalfVeg \<noteq> []
   \<and> average vegRatio mealsHalfVeg \<ge> 0.5
   \<and> average proteinRatio mealsHalfVeg \<ge> 0.25
   \<and> average sugaryDrinksCount mealsHalfVeg \<le> 0.57
   \<and> analyzeDiet mealsHalfVeg \<noteq> []
   \<and> analyzeDiet mealsHalfVeg = [nutritionAdvice]"
proof -
  have ne: "mealsHalfVeg \<noteq> []" by (simp add: mealsHalfVeg_def)
  have len: "real (length mealsHalfVeg) = 4" by (simp add: mealsHalfVeg_def)
  have veg: "average vegRatio mealsHalfVeg \<ge> 0.5"
    unfolding average_def mealsHalfVeg_def meal_def lit_0_2 lit_0_7 lit_0_9 by simp
  have protein: "average proteinRatio mealsHalfVeg \<ge> 0.25"
    unfolding average_def mealsHalfVeg_def meal_def lit_0_3 by simp
  have sugary: "average sugaryDrinksCount mealsHalfVeg \<le> 0.57"
    by (simp add: average_def mealsHalfVeg_def meal_def)
  have avgVeg: "div64 (foldl (\<lambda>sum d. add64 sum (vegRatio d)) 0 mealsHalfVeg)
      (real (length mealsHalfVeg)) = 9007199254740991 / 18014398509481984"
    unfolding mealsHalfVeg_veg len by (rule veg_avg)
  have avgSugary: "div64 (foldl (\<lambda>sum d. add64 sum (sugaryDrinksCount d)) 0 mealsHalfVeg)
      (real (length mealsHalfVeg)) = 0"
    unfolding mealsHalfVeg_sugary len by (simp add: div64_def round64_zero)
  have out: "analyzeDiet mealsHalfVeg = [nutritionAdvice]"
    unfolding analyzeDiet_def Let_def avgVeg avgSugary lit_0_57
    using ne by (simp add: nutritionAdvice_def)
  show ?thesis using ne veg protein sugary out by simp
qed

text \<open>
  C2, amended. For every non-empty diet sequence whose averages as the code computes
  them (the binary64 sum from left to right, divided by the length) are at least 0.5
  for vegRatio, at least 0.25 for proteinRatio and at most the binary64 value of 0.57
  for sugaryDrinksCount, analyzeDiet returns the empty sequence.
\<close>

theorem analyzeDiet_computed_averages:
  assumes "xs \<noteq> []"
    and "average64 vegRatio xs \<ge> 0.5"
    and "average64 proteinRatio xs \<ge> 0.25"
    and "average64 sugaryDrinksCount xs \<le> literal64 0.57"
  shows "analyzeDiet xs = []"
proof -
  have veg: "\<not> div64 (foldl (\<lambda>sum d. add64 sum (vegRatio d)) 0 xs) (real (length xs)) < 0.5"
    using assms(2) by (simp only: reduce_average64 not_less)
  have protein: "\<not> div64 (foldl (\<lambda>sum d. add64 sum (proteinRatio d)) 0 xs) (real (length xs)) < 0.25"
    using assms(3) by (simp only: reduce_average64 not_less)
  have sugary: "\<not> div64 (foldl (\<lambda>sum d. add64 sum (sugaryDrinksCount d)) 0 xs) (real (length xs))
      > literal64 0.57"
    using assms(4) by (simp only: reduce_average64 not_less)
  show ?thesis
    unfolding analyzeDiet_def Let_def
    using assms(1) veg protein sugary by (simp only: length_0_conv if_False simp_thms)
qed

theorem analyzeDiet_computed_averages_witness:
  "[diet0, diet1] \<noteq> []
   \<and> average64 vegRatio [diet0, diet1] \<ge> 0.5
   \<and> average64 proteinRatio [diet0, diet1] \<ge> 0.25
   \<and> average64 sugaryDrinksCount [diet0, diet1] \<le> literal64 0.57
   \<and> analyzeDiet [diet0, diet1] = []"
proof -
  have ne: "[diet0, diet1] \<noteq> []" by simp
  have veg: "average64 vegRatio [diet0, diet1] \<ge> 0.5"
    by (simp add: average64_def sum64_def diet0_def diet1_def half_sum_1 half_sum_2 half_avg)
  have protein: "average64 proteinRatio [diet0, diet1] \<ge> 0.25"
    by (simp add: average64_def sum64_def diet0_def diet1_def quarter_sum_1 quarter_sum_2 quarter_avg)
  have sugary: "average64 sugaryDrinksCount [diet0, diet1] \<le> literal64 0.57"
    unfolding lit_0_57
    by (simp add: average64_def sum64_def diet0_def diet1_def add64_zero one_sum half_avg)
  show ?thesis
    using analyzeDiet_computed_averages [OF ne veg protein sugary] ne veg protein sugary by simp
qed




text \<open>
  C4. analyzeSleep emits the High-priority late-night advice if and only if more than
  two entries have a late bedtime: with the bedtimes written HH:mm, the hour in [0, 5),
  or the hour 23 with the minute strictly above 30. The count is the one of the filter
  callback of the code. A bedtime of exactly 23:30 is not a late night, 23:31 is.
\<close>

theorem late_night_rule:
  assumes "list_all2 (\<lambda>e (h, m). h < 24 \<and> m < 60 \<and> bedTime e = hhmm h m) es tms"
  shows "(lateNightAdvice \<in> set (analyzeSleep es) \<longleftrightarrow> 2 < length (filter lateTime tms))
    \<and> (lateNightAdvice \<in> set (analyzeSleep es) \<longleftrightarrow> 2 < length (filter isLateNight es))
    \<and> \<not> isLateNight (d\<lparr>bedTime := ''23:30''\<rparr>)
    \<and> isLateNight (d\<lparr>bedTime := ''23:31''\<rparr>)"
proof -
  have a: "\<not> isLateNight (d\<lparr>bedTime := ''23:30''\<rparr>)"
    using isLateNight_hhmm [of 23 30 "d\<lparr>bedTime := ''23:30''\<rparr>"]
    by (simp add: hhmm_def digit_char_def lateTime_def)
  have b: "isLateNight (d\<lparr>bedTime := ''23:31''\<rparr>)"
    using isLateNight_hhmm [of 23 31 "d\<lparr>bedTime := ''23:31''\<rparr>"]
    by (simp add: hhmm_def digit_char_def lateTime_def)
  show ?thesis
    using a b by (simp add: analyzeSleep_late_iff lateNights_count [OF assms])
qed

theorem late_night_rule_witness:
  "list_all2 (\<lambda>e (h, m). h < 24 \<and> m < 60 \<and> bedTime e = hhmm h m)
     [sleepAt ''2024-01-01'' ''23:31'' 8, sleepAt ''2024-01-02'' ''00:15'' 8,
      sleepAt ''2024-01-03'' ''04:59'' 8, sleepAt ''2024-01-04'' ''23:30'' 8]
     [(23, 31), (0, 15), (4, 59), (23, 30)]
   \<and> lateNightAdvice \<in> set (analyzeSleep
       [sleepAt ''2024-01-01'' ''23:31'' 8, sleepAt ''2024-01-02'' ''00:15'' 8,
        sleepAt ''2024-01-03'' ''04:59'' 8, sleepAt ''2024-01-04'' ''23:30'' 8])
   \<and> list_all2 (\<lambda>e (h, m). h < 24 \<and> m < 60 \<and> bedTime e = hhmm h m)
     [sleepAt ''2024-01-01'' ''23:30'' 8, sleepAt ''2024-01-02'' ''00:15'' 8,
      sleepAt ''2024-01-03'' ''05:00'' 8, sleepAt ''2024-01-04'' ''23:31'' 8]
     [(23, 30), (0, 15), (5, 0), (23, 31)]
   \<and> lateNightAdvice \<notin> set (analyzeSleep
       [sleepAt ''2024-01-01'' ''23:30'' 8, sleepAt ''2024-01-02'' ''00:15'' 8,
        sleepAt ''2024-01-03'' ''05:00'' 8, sleepAt ''2024-01-04'' ''23:31'' 8])"
proof -
  have h1: "list_all2 (\<lambda>e (h, m). h < 24 \<and> m < 60 \<and> bedTime e = hhmm h m)
     [sleepAt ''2024-01-01'' ''23:31'' 8, sleepAt ''2024-01-02'' ''00:15'' 8,
      sleepAt ''2024-01-03'' ''04:59'' 8, sleepAt ''2024-01-04'' ''23:30'' 8]
     [(23, 31), (0, 15), (4, 59), (23, 30)]"
    by (simp add: sleepAt_def hhmm_def digit_char_def)
  have h2: "list_all2 (\<lambda>e (h, m). h < 24 \<and> m < 60 \<and> bedTime e = hhmm h m)
     [sleepAt ''2024-01-01'' ''23:30'' 8, sleepAt ''2024-01-02'' ''00:15'' 8,
      sleepAt ''2024-01-03'' ''05:00'' 8, sleepAt ''2024-01-04'' ''23:31'' 8]
     [(23, 30), (0, 15), (5, 0), (23, 31)]"
    by (simp add: sleepAt_def hhmm_def digit_char_def)
  show ?thesis
    using late_night_rule [OF h1] late_night_rule [OF h2] h1 h2
    by (simp add: lateTime_def)
qed

text \<open>
  C5. For every input, level is floor(totalPoints / 200) + 1 and progressToNextLevel is
  floor((totalPoints mod 200) / 200 * 100), an integer from 0 to 99; moreover
  totalPoints is not negative and level is at least 1.
\<close>

theorem level_progress_formula:
  "level (calculateGamificationState ds es ss)
     = \<lfloor>real_of_int (totalPoints (calculateGamificationState ds es ss)) / 200\<rfloor> + 1
   \<and> progressToNextLevel (calculateGamificationState ds es ss)
     = \<lfloor>real_of_int (totalPoints (calculateGamificationState ds es ss) mod 200) / 200 * 100\<rfloor>
   \<and> 0 \<le> progressToNextLevel (calculateGamificationState ds es ss)
   \<and> progressToNextLevel (calculateGamificationState ds es ss) \<le> 99
   \<and> 0 \<le> totalPoints (calculateGamificationState ds es ss)
   \<and> 1 \<le> level (calculateGamificationState ds es ss)"
proof -
  let ?p = "points_of ds es ss"
  have nn: "0 \<le> ?p" by (rule points_of_nonneg)
  have rem: "js_rem ?p 200 = ?p mod 200" using nn by (rule js_rem_nonneg)
  have prog: "progressToNextLevel (calculateGamificationState ds es ss) = (?p mod 200) div 2"
    by (simp only: progress_eq rem floor_half)
  have lev: "level (calculateGamificationState ds es ss) = ?p div 200 + 1"
    by (simp only: level_eq floor_level)
  have "0 \<le> ?p mod 200" "?p mod 200 < 200" by simp_all
  then have range: "0 \<le> (?p mod 200) div 2" "(?p mod 200) div 2 \<le> 99" by linarith+
  have "0 \<le> ?p div 200" using nn by simp
  then show ?thesis
    using range nn by (simp add: totalPoints_eq level_eq progress_eq rem floor_half floor_level)
qed

text \<open>
  C6. The step rewards stack: an exercise entry with dailySteps of at least 12000 adds
  both the 15 points of the 8000 rule and the 10 points of the 12000 rule (and 20 more
  when it has at least 30 moderate minutes). With empty diet and sleep lists and the
  single exercise entry dailySteps = 12000, moderateExerciseMinutes below 30, the state
  has totalPoints 25, level 1 and progressToNextLevel 12.
\<close>

theorem step_rewards_stack:
  "(dailySteps e \<ge> 12000 \<longrightarrow>
      exercisePoints p e = p + 15 + 10 + (if moderateExerciseMinutes e \<ge> 30 then 20 else 0))
   \<and> (dailySteps e = 12000 \<and> moderateExerciseMinutes e < 30 \<longrightarrow>
        totalPoints (calculateGamificationState [] [e] []) = 25
        \<and> level (calculateGamificationState [] [e] []) = 1
        \<and> progressToNextLevel (calculateGamificationState [] [e] []) = 12)"
proof -
  have stack: "exercisePoints p e = p + 15 + 10 + (if moderateExerciseMinutes e \<ge> 30 then 20 else 0)"
    if "dailySteps e \<ge> 12000" for p
    using that by (simp add: exercisePoints_def Let_def)
  have pts: "points_of [] [e] [] = 25" if "dailySteps e = 12000" "moderateExerciseMinutes e < 30"
    using that by (simp add: points_of_def exercisePoints_def Let_def)
  have rem: "js_rem 25 200 = 25" by (simp add: js_rem_def)
  show ?thesis
    using stack pts by (simp add: totalPoints_eq level_eq progress_eq rem)
qed

theorem step_rewards_stack_witness:
  "dailySteps exercise12000 \<ge> 12000
   \<and> dailySteps exercise12000 = 12000 \<and> moderateExerciseMinutes exercise12000 < 30
   \<and> exercisePoints 0 exercise12000 = 25
   \<and> totalPoints (calculateGamificationState [] [exercise12000] []) = 25
   \<and> level (calculateGamificationState [] [exercise12000] []) = 1
   \<and> progressToNextLevel (calculateGamificationState [] [exercise12000] []) = 12"
  using step_rewards_stack [of exercise12000 0] by (simp add: exercise12000_def)

text \<open>
  C7. The sleep_streak badge is unlocked if and only if the sleep entries, sorted
  ascending by date, contain a run of at least 3 entries consecutive by list position,
  each with sleepDuration of at least 7; the calendar days between them play no part.
  When every date parses, the sorted list is the stable sort of the entries by their
  time value. The durations 6, 6, 6, 8, 8, 8, 8 in date order unlock the badge.
\<close>

theorem sleep_streak_badge:
  "(badgeUnlocked ''sleep_streak'' (calculateGamificationState ds es ss)
     \<longleftrightarrow> (\<exists>run. sublist run (sortedSleeps ss) \<and> 3 \<le> length run
              \<and> (\<forall>s \<in> set run. sleepDuration s \<ge> 7)))
   \<and> ((\<forall>s \<in> set ss. getTime (sleep_date s) \<noteq> None)
        \<longrightarrow> sortedSleeps ss = sort_key (\<lambda>s. the (getTime (sleep_date s))) ss)"
proof -
  have "3 \<le> maxSleepStreak ss \<longleftrightarrow> hasRun 3 sevenHours (sortedSleeps ss)"
    unfolding maxSleepStreak_def
    using streak_loop [of 0 0 3 "sortedSleeps ss"] hasRun_takeWhile [of 3 sevenHours "sortedSleeps ss"]
    by auto
  also have "\<dots> \<longleftrightarrow> (\<exists>run. sublist run (sortedSleeps ss) \<and> 3 \<le> length run
              \<and> (\<forall>s \<in> set run. sevenHours s))"
    by (rule hasRun_sublist) simp
  finally show ?thesis
    by (simp add: sleep_streak_unlocked sevenHours_def sortedSleeps_sort_key)
qed

theorem sleep_streak_badge_witness:
  "list_all (\<lambda>s. getTime (sleep_date s) \<noteq> None) sleepShuffled
   \<and> map sleepDuration (sortedSleeps sleepShuffled) = [6, 6, 6, 8, 8, 8, 8]
   \<and> map sleep_date (sortedSleeps sleepShuffled)
       = [''2024-01-01'', ''2024-01-03'', ''2024-01-04'', ''2024-01-08'', ''2024-01-10'',
          ''2024-01-20'', ''2024-02-01'']
   \<and> badgeUnlocked ''sleep_streak'' (calculateGamificationState [] [] sleepShuffled)
   \<and> (\<exists>run. sublist run (sortedSleeps sleepShuffled) \<and> 3 \<le> length run
          \<and> (\<forall>s \<in> set run. sleepDuration s \<ge> 7))
   \<and> sort_key (\<lambda>s. the (getTime (sleep_date s))) sleepShuffled = sleepWeek"
proof -
  have valid: "\<forall>s \<in> set sleepShuffled. getTime (sleep_date s) \<noteq> None"
    by (simp add: sleepShuffled_def sleepAt_def getTime_samples)
  have unlocked: "badgeUnlocked ''sleep_streak'' (calculateGamificationState [] [] sleepShuffled)"
    by (simp add: sleep_streak_unlocked maxSleepStreak_def sortedSleeps_sleepShuffled)
       (simp add: sleepWeek_def sleepAt_def streakStep_def)
  have sorted: "map sleepDuration (sortedSleeps sleepShuffled) = [6, 6, 6, 8, 8, 8, 8]"
    "map sleep_date (sortedSleeps sleepShuffled)
       = [''2024-01-01'', ''2024-01-03'', ''2024-01-04'', ''2024-01-08'', ''2024-01-10'',
          ''2024-01-20'', ''2024-02-01'']"
    by (simp_all add: sortedSleeps_sleepShuffled sleepWeek_def sleepAt_def)
  show ?thesis
    using sleep_streak_badge [of "[]" "[]" sleepShuffled] valid unlocked sorted
    by (simp add: sortedSleeps_sleepShuffled list_all_iff)
qed

text \<open>
  C8. Each analyzer emits its advice in a fixed rule order, and every item carries the
  category of its analyzer: the titles that analyzeDiet returns are a subsequence of
  (nutrition imbalance, too many sugary drinks), those of analyzeExercise of
  (insufficient activity, insufficient moderate exercise, prolonged sitting), those of
  analyzeSleep of (frequent late nights, insufficient sleep, phone before bed).
\<close>

theorem rule_order:
  "subseq (map title (analyzeDiet ds)) [T_NutritionImbalance, T_TooManySugaryDrinks]
   \<and> map category (analyzeDiet ds) = replicate (length (analyzeDiet ds)) Diet
   \<and> subseq (map title (analyzeExercise es))
        [T_InsufficientActivity, T_InsufficientModerate, T_ProlongedSitting]
   \<and> map category (analyzeExercise es) = replicate (length (analyzeExercise es)) Exercise
   \<and> subseq (map title (analyzeSleep ss))
        [T_FrequentLateNights, T_InsufficientSleep, T_PhoneBeforeBed]
   \<and> map category (analyzeSleep ss) = replicate (length (analyzeSleep ss)) Sleep"
proof -
  have d: "subseq (map title (analyzeDiet ds)) [T_NutritionImbalance, T_TooManySugaryDrinks]
      \<and> map category (analyzeDiet ds) = replicate (length (analyzeDiet ds)) Diet"
    by (simp add: analyzeDiet_def Let_def)
  have e: "subseq (map title (analyzeExercise es))
        [T_InsufficientActivity, T_InsufficientModerate, T_ProlongedSitting]
      \<and> map category (analyzeExercise es) = replicate (length (analyzeExercise es)) Exercise"
    by (simp add: analyzeExercise_def Let_def)
  have s: "subseq (map title (analyzeSleep ss))
        [T_FrequentLateNights, T_InsufficientSleep, T_PhoneBeforeBed]
      \<and> map category (analyzeSleep ss) = replicate (length (analyzeSleep ss)) Sleep"
    by (simp add: analyzeSleep_def Let_def)
  show ?thesis using d e s by simp
qed

text \<open>
  C10. Every entry adds a non-negative number of points, so appending an entry to any
  of the three input lists never decreases totalPoints, and never decreases level.
\<close>

theorem points_monotone:
  "dietPoints p d \<ge> p \<and> exercisePoints p e \<ge> p \<and> sleepPoints p s \<ge> p
   \<and> totalPoints (calculateGamificationState ds es ss)
       \<le> totalPoints (calculateGamificationState (ds @ [d]) es ss)
   \<and> totalPoints (calculateGamificationState ds es ss)
       \<le> totalPoints (calculateGamificationState ds (es @ [e]) ss)
   \<and> totalPoints (calculateGamificationState ds es ss)
       \<le> totalPoints (calculateGamificationState ds es (ss @ [s]))
   \<and> level (calculateGamificationState ds es ss)
       \<le> level (calculateGamificationState (ds @ [d]) es ss)
   \<and> level (calculateGamificationState ds es ss)
       \<le> level (calculateGamificationState ds (es @ [e]) ss)
   \<and> level (calculateGamificationState ds es ss)
       \<le> level (calculateGamificationState ds es (ss @ [s]))"
proof -
  have d1: "p \<le> dietPoints p d" for p by (simp add: dietPoints_def Let_def)
  have e1: "p \<le> exercisePoints p e" for p by (simp add: exercisePoints_def Let_def)
  have s1: "p \<le> sleepPoints p s" for p by (simp add: sleepPoints_def Let_def)
  have pd: "points_of ds es ss \<le> points_of (ds @ [d]) es ss"
    unfolding points_of_def
    by (intro foldl_sleepPoints_mono foldl_exercisePoints_mono) (simp add: d1)
  have pe: "points_of ds es ss \<le> points_of ds (es @ [e]) ss"
    unfolding points_of_def
    by (intro foldl_sleepPoints_mono) (simp add: e1)
  have ps: "points_of ds es ss \<le> points_of ds es (ss @ [s])"
    unfolding points_of_def by (simp add: s1)
  show ?thesis
    using d1 e1 s1 pd pe ps floor_div_mono [OF pd] floor_div_mono [OF pe] floor_div_mono [OF ps]
    by (simp add: totalPoints_eq level_eq)
qed

end
